theory Spec2Isabelle
  imports Complex_Main "HOL-Library.AList" "HOL-Library.Sublist"
begin

section \<open>Face-identity alignment loss (ldm/modules/arcface\_wrapper.py)\<close>

text \<open>
  Images and crops are tensors of real numbers: the rounding of the float32 arithmetic
  of the grayscale conversion is not part of the model, nor is the cast
  \<^verbatim>\<open>.to(self.dtype)\<close> of the embedder's input. A plane is one channel of one
  image, height by width. A colour image or crop is its three channel planes in RGB
  order; a batch is a list along the batch dimension.
\<close>

type_synonym plane = "real list list"
type_synonym rgb_image = "plane \<times> plane \<times> plane"
type_synonym gray_batch = "plane list"
type_synonym emb_batch = "real list list"
type_synonym bbox = "int \<times> int \<times> int \<times> int"

datatype py_error =
  TypeError | ZeroDivisionError | RuntimeError | KeyError | ValueError | IndexError | Cv2Error

text \<open>
  The embeddings are tensors of the wrapper's dtype, float16 unless the constructor is
  told otherwise, and so is everything the losses compute from them. The value of such a
  computation is a finite number, NaN or an infinity.
\<close>

datatype scalar = Val real | NaN | PosInf | NegInf

text \<open>
  The floating-point operations of a dtype, as the library carries them out on tensors
  of that dtype: product, sum and quotient of two entries, square root, the reductions
  \<^verbatim>\<open>.sum(dim)\<close> and \<^verbatim>\<open>.mean()\<close> over a list of entries, and the operations
  with a Python number: \<^verbatim>\<open>x + c\<close>, \<^verbatim>\<open>c - x\<close>, \<^verbatim>\<open>x - c\<close> and
  \<^verbatim>\<open>x.clamp_min(c)\<close>.
\<close>

record float_ops =
  fmul :: "scalar \<Rightarrow> scalar \<Rightarrow> scalar"
  fadd :: "scalar \<Rightarrow> scalar \<Rightarrow> scalar"
  fdiv :: "scalar \<Rightarrow> scalar \<Rightarrow> scalar"
  fsqrt :: "scalar \<Rightarrow> scalar"
  fsum :: "scalar list \<Rightarrow> scalar"
  fmean :: "scalar list \<Rightarrow> scalar"
  fadd_scalar :: "scalar \<Rightarrow> real \<Rightarrow> scalar"
  frsub_scalar :: "real \<Rightarrow> scalar \<Rightarrow> scalar"
  fsub_scalar :: "scalar \<Rightarrow> real \<Rightarrow> scalar"
  fclamp_min :: "scalar \<Rightarrow> real \<Rightarrow> scalar"

datatype interp_mode = Nearest | Bilinear | Bicubic

text \<open>
  The result of \<^verbatim>\<open>RetinaFaceClient.crop_faces\<close>: foreground crops (or None),
  flattened background crops (or None), foreground bounding boxes, failed instance indices.
\<close>

type_synonym crop_result =
  "rgb_image list option \<times> rgb_image list option \<times> bbox list option \<times> nat list"

text \<open>
  The two networks held by the wrapper are external collaborators and enter as the fields
  of the wrapper object: \<open>arcface\<close> is the identity embedder's forward pass,
  \<open>crop_faces\<close> is \<^verbatim>\<open>self.retinaface.crop_faces(images, out_size, T, bleed,
  use_whole_image_if_no_face)\<close>. The field \<open>dtype\<close> is \<^verbatim>\<open>self.dtype\<close>, given by the
  library's arithmetic on tensors of that dtype.
\<close>

record ArcFaceWrapper =
  arcface :: "gray_batch \<Rightarrow> emb_batch"
  crop_faces :: "rgb_image list \<Rightarrow> nat \<times> nat \<Rightarrow> int \<Rightarrow> int \<Rightarrow> bool \<Rightarrow> crop_result"
  dtype :: float_ops

text \<open>
  Every forward pass of the embedder is logged with the call site (line 70 embeds the
  foreground faces, line 76 the background faces), its input and the gradient mode
  it ran under.
\<close>

datatype call_site = FgFaces | BgFaces

datatype arcface_call = ArcfaceCall (site: call_site) (input: gray_batch) (grad_enabled: bool)

definition rgb_to_gray_weights :: "real \<times> real \<times> real" where
  "rgb_to_gray_weights = (0.299, 0.587, 0.114)"

definition scale_plane :: "real \<Rightarrow> plane \<Rightarrow> plane" where
  "scale_plane w p = map (map (\<lambda>x. x * w)) p"

definition add_plane :: "plane \<Rightarrow> plane \<Rightarrow> plane" where
  "add_plane p q = map2 (map2 (+)) p q"

text \<open>
  \<^verbatim>\<open>(crops * weights.view(1, 3, 1, 1)).sum(dim=1, keepdim=True)\<close> on one crop:
  each channel is multiplied by its weight and the three channels are added.
\<close>

fun weighted_channel_sum :: "real \<times> real \<times> real \<Rightarrow> rgb_image \<Rightarrow> plane" where
  "weighted_channel_sum (wr, wg, wb) (r, g, b) =
     add_plane (add_plane (scale_plane wr r) (scale_plane wg g)) (scale_plane wb b)"

definition faces_gray ::
  "(gray_batch \<Rightarrow> nat \<times> nat \<Rightarrow> interp_mode \<Rightarrow> bool \<Rightarrow> gray_batch) \<Rightarrow> rgb_image list \<Rightarrow> gray_batch" where
  "faces_gray interpolate face_crops =
     interpolate (map (weighted_channel_sum rgb_to_gray_weights) face_crops) (128, 128) Bilinear False"

text \<open>
  \<^verbatim>\<open>embed_image_tensor\<close>. The library resize \<^verbatim>\<open>F.interpolate(x, size, mode,
  align_corners)\<close> is the first parameter. The result is the returned 4-tuple together
  with the embedder calls made, in order.
\<close>

definition embed_image_tensor ::
  "(gray_batch \<Rightarrow> nat \<times> nat \<Rightarrow> interp_mode \<Rightarrow> bool \<Rightarrow> gray_batch) \<Rightarrow> ArcFaceWrapper \<Rightarrow>
   rgb_image list \<Rightarrow> int \<Rightarrow> int \<Rightarrow> bool \<Rightarrow> bool \<Rightarrow> bool \<Rightarrow>
   (emb_batch option \<times> emb_batch option \<times> bbox list option \<times> nat list) \<times> arcface_call list" where
  "embed_image_tensor interpolate self images_ts T bleed embed_bg_faces use_whole_image_if_no_face enable_grad =
     (case crop_faces self images_ts (128, 128) T bleed use_whole_image_if_no_face of
        (fg_face_crops, bg_face_crops_flat, fg_face_bboxes, failed_inst_indices) \<Rightarrow>
          (case fg_face_crops of
             None \<Rightarrow> ((None, None, None, failed_inst_indices), [])
           | Some fg \<Rightarrow>
               (let fg_faces_gray = faces_gray interpolate fg;
                    fg_faces_emb = arcface self fg_faces_gray;
                    fg_call = ArcfaceCall FgFaces fg_faces_gray enable_grad
                in (case (if embed_bg_faces then bg_face_crops_flat else None) of
                      Some bg \<Rightarrow>
                        (let bg_faces_gray = faces_gray interpolate bg;
                             bg_faces_emb = arcface self bg_faces_gray
                         in ((Some fg_faces_emb, Some bg_faces_emb, fg_face_bboxes, failed_inst_indices),
                             [fg_call, ArcfaceCall BgFaces bg_faces_gray enable_grad]))
                    | None \<Rightarrow>
                        ((Some fg_faces_emb, None, fg_face_bboxes, failed_inst_indices), [fg_call])))))"

subsection \<open>The library loss and the alignment loss\<close>

text \<open>
  \<^verbatim>\<open>F.cosine_embedding_loss(input1, input2, target)\<close> with its defaults (margin 0,
  mean reduction) for 2-D inputs and a 1-D target, operation by operation as the library
  computes it, every operation being the one of the wrapper's dtype: the two inputs are
  multiplied with broadcasting along the batch dimension (sizes must be equal or one of
  them 1, otherwise the library raises) and summed along each row, the squared magnitudes
  are stabilised by \<open>EPSILON\<close>, the cosine is the quotient by the root of their product,
  and the target selects \<open>1 - cos\<close> (label 1) or \<open>cos - margin\<close> clamped at 0 (label -1)
  per row against zeros. Both inputs come from the same embedder, so their rows have the
  same width and the columns are never broadcast.
\<close>

definition EPSILON :: real where
  "EPSILON = 1 / 10 ^ 12"

definition broadcast_dim :: "nat \<Rightarrow> nat \<Rightarrow> py_error + nat" where
  "broadcast_dim a b =
     (if a = b then Inr a else if a = 1 then Inr b else if b = 1 then Inr a else Inl RuntimeError)"

definition expand_dim :: "'a list \<Rightarrow> nat \<Rightarrow> 'a list" where
  "expand_dim xs n = (case xs of [x] \<Rightarrow> replicate n x | _ \<Rightarrow> xs)"

definition cosine_embedding_loss ::
  "float_ops \<Rightarrow> emb_batch \<Rightarrow> emb_batch \<Rightarrow> real list \<Rightarrow> py_error + scalar" where
  "cosine_embedding_loss ops input1 input2 target =
     (case broadcast_dim (length input1) (length input2) of
        Inl e \<Rightarrow> Inl e
      | Inr n \<Rightarrow>
          (let x1 = map (map Val) (expand_dim input1 n);
               x2 = map (map Val) (expand_dim input2 n);
               prod_sum = map2 (\<lambda>u v. fsum ops (map2 (fmul ops) u v)) x1 x2;
               mag_square1 = map (\<lambda>u. fadd_scalar ops (fsum ops (map2 (fmul ops) u u)) EPSILON) x1;
               mag_square2 = map (\<lambda>v. fadd_scalar ops (fsum ops (map2 (fmul ops) v v)) EPSILON) x2;
               denom = map (fsqrt ops) (map2 (fmul ops) mag_square1 mag_square2);
               cos = map2 (fdiv ops) prod_sum denom
           in case broadcast_dim (length target) n of
                Inl e \<Rightarrow> Inl e
              | Inr m \<Rightarrow>
                  (let pos = map (frsub_scalar ops 1) cos;
                       neg = map (\<lambda>c. fclamp_min ops (fsub_scalar ops c 0) 0) cos;
                       output_pos = map2 (\<lambda>t p. if t = 1 then p else Val 0)
                                      (expand_dim target m) (expand_dim pos m);
                       output_neg = map2 (\<lambda>t q. if t = - 1 then q else Val 0)
                                      (expand_dim target m) (expand_dim neg m)
                   in Inr (fmean ops (map2 (fadd ops) output_pos output_neg)))))"

text \<open>Shorthand for what this computes for one pair of rows with label 1.\<close>

abbreviation pair_loss :: "float_ops \<Rightarrow> real list \<Rightarrow> real list \<Rightarrow> scalar" where
  "pair_loss ops u v \<equiv>
     fadd ops
       (frsub_scalar ops 1
          (fdiv ops
             (fsum ops (map2 (fmul ops) (map Val u) (map Val v)))
             (fsqrt ops
                (fmul ops
                   (fadd_scalar ops (fsum ops (map2 (fmul ops) (map Val u) (map Val u))) (1 / 10 ^ 12))
                   (fadd_scalar ops (fsum ops (map2 (fmul ops) (map Val v) (map Val v))) (1 / 10 ^ 12))))))
       (Val 0)"

text \<open>\<^verbatim>\<open>x.repeat(k, 1)\<close> on a 2-D tensor: the rows of \<open>x\<close>, \<open>k\<close> times over.\<close>

definition repeat_rows :: "nat \<Rightarrow> 'a list \<Rightarrow> 'a list" where
  "repeat_rows k rows = concat (replicate k rows)"

text \<open>
  Lines 110-111: the reference embeddings as they enter the loss. Python's \<^verbatim>\<open>//\<close>
  raises on a zero divisor.
\<close>

definition tile_ref_emb :: "emb_batch \<Rightarrow> emb_batch \<Rightarrow> py_error + emb_batch" where
  "tile_ref_emb ref_fg_faces_emb aligned_fg_faces_emb =
     (if length ref_fg_faces_emb < length aligned_fg_faces_emb then
        (if length ref_fg_faces_emb = 0 then Inl ZeroDivisionError
         else Inr (repeat_rows (length aligned_fg_faces_emb div length ref_fg_faces_emb) ref_fg_faces_emb))
      else Inr ref_fg_faces_emb)"

text \<open>What the function prints, in order.\<close>

datatype message =
    FailedRef "nat list"
  | FailedAligned "nat list"
  | LossArcfaceAlign scalar
  | LossBgFacesSuppress scalar
  | NoBgFaces

text \<open>
  Lines 117-125: the background-suppression loss and what is printed with it. The square
  is a product in the wrapper's dtype, the mean runs over all entries.
\<close>

definition bg_faces_suppress_loss ::
  "float_ops \<Rightarrow> bool \<Rightarrow> emb_batch option \<Rightarrow> scalar \<times> message list" where
  "bg_faces_suppress_loss ops suppress_bg_faces aligned_bg_faces_emb =
     (case (if suppress_bg_faces then aligned_bg_faces_emb else None) of
        Some bg \<Rightarrow>
          (let loss_bg_faces_suppress = fmean ops (map (\<lambda>x. fmul ops (Val x) (Val x)) (concat bg))
           in (loss_bg_faces_suppress, [LossBgFacesSuppress loss_bg_faces_suppress]))
      | None \<Rightarrow> (Val 0, if suppress_bg_faces then [NoBgFaces] else []))"

text \<open>
  \<^verbatim>\<open>calc_arcface_align_loss\<close>. The result is the returned triple or the exception
  raised, the embedder calls made, and the messages printed. \<^verbatim>\<open>len(None)\<close> raises
  TypeError.
\<close>

definition calc_arcface_align_loss ::
  "(gray_batch \<Rightarrow> nat \<times> nat \<Rightarrow> interp_mode \<Rightarrow> bool \<Rightarrow> gray_batch) \<Rightarrow> ArcFaceWrapper \<Rightarrow>
   rgb_image list \<Rightarrow> rgb_image list \<Rightarrow> int \<Rightarrow> int \<Rightarrow> bool \<Rightarrow> bool \<Rightarrow>
   (py_error + scalar \<times> scalar \<times> bbox list option) \<times> arcface_call list \<times> message list" where
  "calc_arcface_align_loss interpolate self ref_images aligned_images T bleed suppress_bg_faces use_whole_image_if_no_face =
     (case embed_image_tensor interpolate self ref_images T bleed False False False of
        ((ref_fg_faces_emb, ref_bg_faces_emb, ref_fg_face_bboxes, ref_failed_inst_indices), ref_calls) \<Rightarrow>
     (case embed_image_tensor interpolate self aligned_images T bleed suppress_bg_faces use_whole_image_if_no_face True of
        ((aligned_fg_faces_emb, aligned_bg_faces_emb, aligned_fg_face_bboxes, aligned_failed_inst_indices), aligned_calls) \<Rightarrow>
     (let calls = ref_calls @ aligned_calls
      in if length ref_failed_inst_indices > 0 then
           (Inr (Val 0, Val 0, None), calls, [FailedRef ref_failed_inst_indices])
         else if length aligned_failed_inst_indices > 0 then
           (Inr (Val 0, Val 0, None), calls, [FailedAligned aligned_failed_inst_indices])
         else
           (case ref_fg_faces_emb of
              None \<Rightarrow> (Inl TypeError, calls, [])
            | Some ref_emb \<Rightarrow>
           (case aligned_fg_faces_emb of
              None \<Rightarrow> (Inl TypeError, calls, [])
            | Some aligned_emb \<Rightarrow>
           (case tile_ref_emb ref_emb aligned_emb of
              Inl e \<Rightarrow> (Inl e, calls, [])
            | Inr tiled \<Rightarrow>
           (case cosine_embedding_loss (dtype self) tiled aligned_emb (replicate (length tiled) 1) of
              Inl e \<Rightarrow> (Inl e, calls, [])
            | Inr loss_arcface_align \<Rightarrow>
           (case bg_faces_suppress_loss (dtype self) suppress_bg_faces aligned_bg_faces_emb of
              (loss_bg_faces_suppress, bg_messages) \<Rightarrow>
                (Inr (loss_arcface_align, loss_bg_faces_suppress, aligned_fg_face_bboxes),
                 calls, LossArcfaceAlign loss_arcface_align # bg_messages)))))))))"

section \<open>Checkpoint key renaming (ArcFaceWrapper.\_\_init\_\_, lines 29-31)\<close>

text \<open>
  Python's \<^verbatim>\<open>s.replace(old, new)\<close>: every non-overlapping occurrence of \<open>old\<close>,
  found scanning from the left, is replaced by \<open>new\<close>; an empty \<open>old\<close> matches before
  every character and at the end.
\<close>

function str_replace :: "string \<Rightarrow> string \<Rightarrow> string \<Rightarrow> string" where
  "str_replace old new s =
     (if old = [] then new @ concat (map (\<lambda>c. c # new) s)
      else (case s of
              [] \<Rightarrow> []
            | c # cs \<Rightarrow>
                if take (length old) s = old then new @ str_replace old new (drop (length old) s)
                else c # str_replace old new cs))"
  by pat_completeness auto
termination
  by (relation "measure (\<lambda>(old, new, s). length s)") auto

declare str_replace.simps [simp del]

text \<open>
  The checkpoint is a Python dict: an association list with distinct keys in insertion
  order. \<^verbatim>\<open>d.pop(key)\<close> raises KeyError on a missing key; \<^verbatim>\<open>d[k] = v\<close>
  overwrites in place or appends.
\<close>

type_synonym 'v state_dict = "(string \<times> 'v) list"

definition new_key_of :: "string \<Rightarrow> string" where
  "new_key_of key = str_replace ''module.'' [] key"

definition rename_key :: "string \<Rightarrow> 'v state_dict \<Rightarrow> py_error + 'v state_dict" where
  "rename_key key ckpt_state_dict =
     (let new_key = new_key_of key
      in case map_of ckpt_state_dict key of
           None \<Rightarrow> Inl KeyError
         | Some v \<Rightarrow> Inr (AList.update new_key v (AList.delete key ckpt_state_dict)))"

fun rename_keys :: "string list \<Rightarrow> 'v state_dict \<Rightarrow> py_error + 'v state_dict" where
  "rename_keys [] d = Inr d"
| "rename_keys (key # keys) d =
     (case rename_key key d of Inl e \<Rightarrow> Inl e | Inr d' \<Rightarrow> rename_keys keys d')"

text \<open>The loop over \<^verbatim>\<open>list(ckpt_state_dict.keys())\<close>, a snapshot of the keys.\<close>

definition rename_ckpt_keys :: "'v state_dict \<Rightarrow> py_error + 'v state_dict" where
  "rename_ckpt_keys ckpt_state_dict = rename_keys (map fst ckpt_state_dict) ckpt_state_dict"

section \<open>Backward warping by a flow field (gma/test.py)\<close>

text \<open>
  A numpy array of three dimensions: its shape and its entries in row-major order.
  Arrays are objects: the store lists them by address, a new array gets the next address,
  and an in-place operation updates the store at the array's address.
\<close>

record ndarray3 =
  shape :: "nat \<times> nat \<times> nat"
  entries :: "real list"

type_synonym store = "ndarray3 list"

definition alloc :: "ndarray3 \<Rightarrow> store \<Rightarrow> nat \<times> store" where
  "alloc a s = (length s, s @ [a])"

text \<open>
  \<^verbatim>\<open>a[:, :, c] += v\<close> where \<open>v\<close> has shape \<open>(n,)\<close> (\<open>along_x\<close>) or \<open>(n, 1)\<close>:
  the index must exist, and \<open>v\<close> must broadcast to the first two dimensions of \<open>a\<close>
  (\<open>n\<close> equal to that dimension, or 1). \<open>v\<close> is \<^verbatim>\<open>np.arange(n)\<close>, so the entry at
  row \<open>y\<close>, column \<open>x\<close> grows by \<open>x\<close> (by \<open>y\<close>), and by 0 when \<open>n = 1\<close> is broadcast.
\<close>

definition iadd_arange :: "bool \<Rightarrow> nat \<Rightarrow> nat \<Rightarrow> ndarray3 \<Rightarrow> py_error + ndarray3" where
  "iadd_arange along_x c n a =
     (case shape a of (Hf, Wf, Cf) \<Rightarrow>
        if \<not> c < Cf then Inl IndexError
        else if \<not> (n = (if along_x then Wf else Hf) \<or> n = 1) then Inl ValueError
        else Inr (a\<lparr>entries :=
               map (\<lambda>(i, v).
                      if i mod Cf = c then
                        v + real (if along_x then (if n = Wf then (i div Cf) mod Wf else 0)
                                  else (if n = Hf then i div (Wf * Cf) else 0))
                      else v)
                   (List.enumerate 0 (entries a))\<rparr>))"

text \<open>
  \<^verbatim>\<open>backward_warp_by_flow(image2, flow1to2)\<close>. The arguments are addresses into the
  store. \<^verbatim>\<open>cv2.remap(image, map, None, cv2.INTER_LINEAR)\<close> is the first parameter:
  it reads its two arrays and returns a new one. The result is the address of the
  returned array or the exception, and the store afterwards.
\<close>

definition backward_warp_by_flow ::
  "(ndarray3 \<Rightarrow> ndarray3 \<Rightarrow> py_error + ndarray3) \<Rightarrow> store \<Rightarrow> nat \<Rightarrow> nat \<Rightarrow> (py_error + nat) \<times> store" where
  "backward_warp_by_flow remap s image2 flow1to2 =
     (case shape (s ! image2) of (H, W, C) \<Rightarrow>
      (case alloc (s ! flow1to2) s of (flow_copy, s1) \<Rightarrow>
      (case iadd_arange True 0 W (s1 ! flow_copy) of
         Inl e \<Rightarrow> (Inl e, s1)
       | Inr a1 \<Rightarrow>
      (let s2 = s1[flow_copy := a1]
       in case iadd_arange False 1 H (s2 ! flow_copy) of
            Inl e \<Rightarrow> (Inl e, s2)
          | Inr a2 \<Rightarrow>
      (let s3 = s2[flow_copy := a2]
       in case remap (s3 ! image2) (s3 ! flow_copy) of
            Inl e \<Rightarrow> (Inl e, s3)
          | Inr image1_recovered \<Rightarrow>
              (case alloc image1_recovered s3 of (r, s4) \<Rightarrow> (Inr r, s4)))))))"

section \<open>Stand-ins for the collaborators\<close>

text \<open>
  A localizer stand-in that finds a face in an image exactly when its top-left red value
  is positive, crops the whole image, and reports the other instances as failed unless the
  whole-image fallback is requested. An image whose top-left green value is positive
  also shows a background face, cropped the same way.
\<close>

definition has_face :: "rgb_image \<Rightarrow> bool" where
  "has_face img = (case img of (r, g, b) \<Rightarrow> (case r of (x # _) # _ \<Rightarrow> 0 < x | _ \<Rightarrow> False))"

definition has_bg_face :: "rgb_image \<Rightarrow> bool" where
  "has_bg_face img = (case img of (r, g, b) \<Rightarrow> (case g of (x # _) # _ \<Rightarrow> 0 < x | _ \<Rightarrow> False))"

definition stub_crop_faces :: "rgb_image list \<Rightarrow> nat \<times> nat \<Rightarrow> int \<Rightarrow> int \<Rightarrow> bool \<Rightarrow> crop_result" where
  "stub_crop_faces images out_size T bleed use_whole =
     (let found = filter (\<lambda>img. has_face img \<or> use_whole) images;
          failed = filter (\<lambda>i. \<not> (has_face (images ! i) \<or> use_whole)) [0..<length images];
          bg = filter has_bg_face found
      in if found = [] then (None, None, None, failed)
         else (Some found, if bg = [] then None else Some bg, Some (map (\<lambda>_. (0, 0, 1, 1)) found), failed))"

text \<open>An embedder stand-in: the embedding of a gray crop is its first row.\<close>

definition stub_arcface :: "gray_batch \<Rightarrow> emb_batch" where
  "stub_arcface faces = map (\<lambda>p. case p of [] \<Rightarrow> [] | row # _ \<Rightarrow> row) faces"

definition stub_interpolate :: "gray_batch \<Rightarrow> nat \<times> nat \<Rightarrow> interp_mode \<Rightarrow> bool \<Rightarrow> gray_batch" where
  "stub_interpolate x out_size m align_corners = x"

subsection \<open>Half precision\<close>

text \<open>
  The arithmetic of float16, the wrapper's default dtype: every operation returns its
  exact result rounded to the nearest value of the format, ties to the even neighbour
  (10 fraction bits, exponents from -14 to 15, subnormal numbers below); a rounded result
  beyond the largest finite value 65504 is infinite. A reduction rounds once, at its end.
  Zero carries no sign here.
\<close>

definition half_binades :: "real list" where
  "half_binades =
     [32768, 16384, 8192, 4096, 2048, 1024, 512, 256, 128, 64, 32, 16, 8, 4, 2, 1,
      1 / 2, 1 / 4, 1 / 8, 1 / 16, 1 / 32, 1 / 64, 1 / 128, 1 / 256, 1 / 512, 1 / 1024,
      1 / 2048, 1 / 4096, 1 / 8192, 1 / 16384]"

definition half_round :: "real \<Rightarrow> scalar" where
  "half_round x =
     (let step = (case find (\<lambda>b. b \<le> \<bar>x\<bar>) half_binades of
                    Some b \<Rightarrow> b / 1024
                  | None \<Rightarrow> 1 / 16777216);
          q = x / step;
          f = \<lfloor>q\<rfloor>;
          d = q - of_int f;
          n = (if d < 1 / 2 then f else if 1 / 2 < d then f + 1 else if even f then f else f + 1);
          r = of_int n * step
      in if 65504 < \<bar>r\<bar> then (if 0 < x then PosInf else NegInf) else Val r)"

definition signed_inf :: "bool \<Rightarrow> scalar" where
  "signed_inf positive = (if positive then PosInf else NegInf)"

fun scalar_neg :: "scalar \<Rightarrow> scalar" where
  "scalar_neg (Val a) = Val (- a)"
| "scalar_neg NaN = NaN"
| "scalar_neg PosInf = NegInf"
| "scalar_neg NegInf = PosInf"

fun scalar_mul :: "scalar \<Rightarrow> scalar \<Rightarrow> scalar" where
  "scalar_mul (Val a) (Val b) = Val (a * b)"
| "scalar_mul NaN y = NaN"
| "scalar_mul x NaN = NaN"
| "scalar_mul (Val a) PosInf = (if a = 0 then NaN else signed_inf (0 < a))"
| "scalar_mul (Val a) NegInf = (if a = 0 then NaN else signed_inf (a < 0))"
| "scalar_mul PosInf (Val b) = (if b = 0 then NaN else signed_inf (0 < b))"
| "scalar_mul NegInf (Val b) = (if b = 0 then NaN else signed_inf (b < 0))"
| "scalar_mul PosInf PosInf = PosInf"
| "scalar_mul PosInf NegInf = NegInf"
| "scalar_mul NegInf PosInf = NegInf"
| "scalar_mul NegInf NegInf = PosInf"

fun scalar_add :: "scalar \<Rightarrow> scalar \<Rightarrow> scalar" where
  "scalar_add (Val a) (Val b) = Val (a + b)"
| "scalar_add NaN y = NaN"
| "scalar_add x NaN = NaN"
| "scalar_add PosInf NegInf = NaN"
| "scalar_add NegInf PosInf = NaN"
| "scalar_add PosInf y = PosInf"
| "scalar_add x PosInf = PosInf"
| "scalar_add NegInf y = NegInf"
| "scalar_add x NegInf = NegInf"

fun scalar_div :: "scalar \<Rightarrow> scalar \<Rightarrow> scalar" where
  "scalar_div (Val a) (Val b) =
     (if b = 0 then (if a = 0 then NaN else signed_inf (0 < a)) else Val (a / b))"
| "scalar_div NaN y = NaN"
| "scalar_div x NaN = NaN"
| "scalar_div (Val a) PosInf = Val 0"
| "scalar_div (Val a) NegInf = Val 0"
| "scalar_div PosInf (Val b) = signed_inf (0 \<le> b)"
| "scalar_div NegInf (Val b) = signed_inf (b < 0)"
| "scalar_div PosInf PosInf = NaN"
| "scalar_div PosInf NegInf = NaN"
| "scalar_div NegInf PosInf = NaN"
| "scalar_div NegInf NegInf = NaN"

fun scalar_sqrt :: "scalar \<Rightarrow> scalar" where
  "scalar_sqrt (Val a) = (if a < 0 then NaN else Val (sqrt a))"
| "scalar_sqrt NaN = NaN"
| "scalar_sqrt PosInf = PosInf"
| "scalar_sqrt NegInf = NaN"

fun scalar_clamp_min :: "scalar \<Rightarrow> real \<Rightarrow> scalar" where
  "scalar_clamp_min (Val a) c = Val (max a c)"
| "scalar_clamp_min NaN c = NaN"
| "scalar_clamp_min PosInf c = PosInf"
| "scalar_clamp_min NegInf c = Val c"

definition round_scalar :: "(real \<Rightarrow> scalar) \<Rightarrow> scalar \<Rightarrow> scalar" where
  "round_scalar rnd s = (case s of Val a \<Rightarrow> rnd a | _ \<Rightarrow> s)"

text \<open>The operations of a format, from its rounding.\<close>

definition rounded_ops :: "(real \<Rightarrow> scalar) \<Rightarrow> float_ops" where
  "rounded_ops rnd =
     \<lparr>fmul = (\<lambda>x y. round_scalar rnd (scalar_mul x y)),
      fadd = (\<lambda>x y. round_scalar rnd (scalar_add x y)),
      fdiv = (\<lambda>x y. round_scalar rnd (scalar_div x y)),
      fsqrt = (\<lambda>x. round_scalar rnd (scalar_sqrt x)),
      fsum = (\<lambda>xs. round_scalar rnd (foldl scalar_add (Val 0) xs)),
      fmean = (\<lambda>xs. if xs = [] then NaN
                     else round_scalar rnd (scalar_div (foldl scalar_add (Val 0) xs) (Val (real (length xs))))),
      fadd_scalar = (\<lambda>x c. round_scalar rnd (scalar_add x (Val c))),
      frsub_scalar = (\<lambda>c x. round_scalar rnd (scalar_add (Val c) (scalar_neg x))),
      fsub_scalar = (\<lambda>x c. round_scalar rnd (scalar_add x (Val (- c)))),
      fclamp_min = (\<lambda>x c. round_scalar rnd (scalar_clamp_min x c))\<rparr>"

definition half_ops :: float_ops where
  "half_ops = rounded_ops half_round"


text \<open>The wrapper of the stand-ins, at the default dtype.\<close>

definition stub_wrapper :: ArcFaceWrapper where
  "stub_wrapper = \<lparr>arcface = stub_arcface, crop_faces = stub_crop_faces, dtype = half_ops\<rparr>"

definition red_image :: rgb_image where
  "red_image = ([[255]], [[0]], [[0]])"

definition dark_image :: rgb_image where
  "dark_image = ([[0]], [[0]], [[0]])"

definition crowd_image :: rgb_image where
  "crowd_image = ([[3]], [[4]], [[0]])"

text \<open>Two images whose gray value, 128 and 1, is a float16 number.\<close>

definition gray_image :: rgb_image where
  "gray_image = ([[128]], [[128]], [[128]])"

definition unit_image :: rgb_image where
  "unit_image = ([[1]], [[1]], [[1]])"

text \<open>A remap stand-in that returns the image as it is.\<close>

definition stub_remap :: "ndarray3 \<Rightarrow> ndarray3 \<Rightarrow> py_error + ndarray3" where
  "stub_remap img flow = Inr img"

text \<open>A 2 by 2 image of one channel and a 2 by 2 flow field that is zero everywhere.\<close>

definition img22 :: ndarray3 where
  "img22 = \<lparr>shape = (2, 2, 1), entries = [10, 20, 30, 40]\<rparr>"

definition flow22 :: ndarray3 where
  "flow22 = \<lparr>shape = (2, 2, 2), entries = [0, 0, 0, 0, 0, 0, 0, 0]\<rparr>"

section \<open>Properties\<close>

subsection \<open>No face in any instance, and failed instances\<close>

text \<open>
  C5. Whenever the localizer returns no foreground crops (None), \<open>embed_image_tensor\<close>
  returns None for the foreground embeddings, the background embeddings and the bounding
  boxes, returns the localizer's failed-instance list unchanged, and makes no embedder call.
\<close>

theorem embed_image_tensor_no_faces:
  assumes "crop_faces self images_ts (128, 128) T bleed use_whole = (None, bg, bb, failed)"
  shows "embed_image_tensor interpolate self images_ts T bleed embed_bg use_whole enable_grad
           = ((None, None, None, failed), [])"
  using assms by (simp add: embed_image_tensor_def)

theorem embed_image_tensor_no_faces_witness:
  "crop_faces stub_wrapper [dark_image, dark_image] (128, 128) 20 0 False = (None, None, None, [0, 1])
   \<and> embed_image_tensor stub_interpolate stub_wrapper [dark_image, dark_image] 20 0 True False True
       = ((None, None, None, [0, 1]), [])"
proof -
  have h: "crop_faces stub_wrapper [dark_image, dark_image] (128, 128) 20 0 False = (None, None, None, [0, 1])"
    by (simp add: stub_wrapper_def stub_crop_faces_def has_face_def dark_image_def upt_rec)
  show ?thesis
    using h embed_image_tensor_no_faces [OF h, of stub_interpolate True True] by simp
qed

text \<open>
  C1. If either of the two \<open>embed_image_tensor\<close> calls made by
  \<open>calc_arcface_align_loss\<close> reports a non-empty failed-instance list, the function
  returns a zero alignment loss, a zero background-suppression loss and no bounding boxes,
  and prints only the failure report: no loss is computed.
\<close>

theorem calc_arcface_align_loss_failed:
  assumes "embed_image_tensor interpolate self ref_images T bleed False False False
             = ((ref_emb, ref_bg, ref_bboxes, ref_failed), ref_calls)"
    and "embed_image_tensor interpolate self aligned_images T bleed suppress use_whole True
             = ((al_emb, al_bg, al_bboxes, al_failed), al_calls)"
    and "ref_failed \<noteq> [] \<or> al_failed \<noteq> []"
  shows "calc_arcface_align_loss interpolate self ref_images aligned_images T bleed suppress use_whole
           = (Inr (Val 0, Val 0, None), ref_calls @ al_calls,
              [if ref_failed \<noteq> [] then FailedRef ref_failed else FailedAligned al_failed])"
  using assms by (auto simp add: calc_arcface_align_loss_def)

lemmas stub_defs = stub_wrapper_def stub_crop_faces_def has_face_def has_bg_face_def dark_image_def
  red_image_def crowd_image_def gray_image_def unit_image_def stub_arcface_def stub_interpolate_def
  embed_image_tensor_def faces_gray_def rgb_to_gray_weights_def scale_plane_def add_plane_def
  upt_rec Let_def

lemma embed_ref_red_dark:
  "embed_image_tensor stub_interpolate stub_wrapper [red_image, dark_image] 20 2 False False False
     = ((Some [[255 * 0.299]], None, Some [(0, 0, 1, 1)], [1]),
        [ArcfaceCall FgFaces [[[255 * 0.299]]] False])"
  by (simp add: stub_defs)

lemma embed_aligned_red_red:
  "embed_image_tensor stub_interpolate stub_wrapper [red_image, red_image] 20 2 True False True
     = ((Some [[255 * 0.299], [255 * 0.299]], None, Some [(0, 0, 1, 1), (0, 0, 1, 1)], []),
        [ArcfaceCall FgFaces [[[255 * 0.299]], [[255 * 0.299]]] True])"
  by (simp add: stub_defs)

theorem calc_arcface_align_loss_failed_witness:
  "calc_arcface_align_loss stub_interpolate stub_wrapper [red_image, dark_image] [red_image, red_image] 20 2 True False
     = (Inr (Val 0, Val 0, None),
        [ArcfaceCall FgFaces [[[255 * 0.299]]] False,
         ArcfaceCall FgFaces [[[255 * 0.299]], [[255 * 0.299]]] True],
        [FailedRef [1]])"
  using calc_arcface_align_loss_failed [OF embed_ref_red_dark embed_aligned_red_red] by simp

subsection \<open>The cosine-embedding loss\<close>

lemma expand_dim_self: "length xs = n \<Longrightarrow> expand_dim xs n = xs"
  by (cases xs; cases "tl xs") (auto simp: expand_dim_def)

lemma expand_dim_single: "expand_dim [x] n = replicate n x"
  by (simp add: expand_dim_def)

lemma broadcast_dim_mismatch: "m \<noteq> n \<Longrightarrow> m \<noteq> 1 \<Longrightarrow> n \<noteq> 1 \<Longrightarrow> broadcast_dim m n = Inl RuntimeError"
  by (simp add: broadcast_dim_def)

lemma cosine_embedding_loss_mismatch:
  "length x \<noteq> length y \<Longrightarrow> length x \<noteq> 1 \<Longrightarrow> length y \<noteq> 1 \<Longrightarrow>
   cosine_embedding_loss ops x y t = Inl RuntimeError"
  by (simp add: cosine_embedding_loss_def broadcast_dim_mismatch)

lemma cosine_embedding_loss_ones:
  assumes "length x = length y"
  shows "cosine_embedding_loss ops x y (replicate (length x) 1)
     = Inr (fmean ops
         (map2 (\<lambda>u v.
            fadd ops
              (frsub_scalar ops 1
                 (fdiv ops
                    (fsum ops (map2 (fmul ops) (map Val u) (map Val v)))
                    (fsqrt ops
                       (fmul ops
                          (fadd_scalar ops (fsum ops (map2 (fmul ops) (map Val u) (map Val u))) (1 / 10 ^ 12))
                          (fadd_scalar ops (fsum ops (map2 (fmul ops) (map Val v) (map Val v))) (1 / 10 ^ 12))))))
              (Val 0)) x y))"
  using assms
  apply (simp add: cosine_embedding_loss_def broadcast_dim_def expand_dim_self Let_def EPSILON_def)
  apply (rule arg_cong [where f = "fmean ops"])
  apply (induction x y rule: list_induct2)
   apply simp_all
  done

lemma cosine_embedding_loss_one_row:
  assumes "length x \<noteq> 1"
  shows "cosine_embedding_loss ops x [v] (replicate (length x) 1)
     = Inr (fmean ops
         (map (\<lambda>u.
            fadd ops
              (frsub_scalar ops 1
                 (fdiv ops
                    (fsum ops (map2 (fmul ops) (map Val u) (map Val v)))
                    (fsqrt ops
                       (fmul ops
                          (fadd_scalar ops (fsum ops (map2 (fmul ops) (map Val u) (map Val u))) (1 / 10 ^ 12))
                          (fadd_scalar ops (fsum ops (map2 (fmul ops) (map Val v) (map Val v))) (1 / 10 ^ 12))))))
              (Val 0)) x))"
  using assms
  apply (simp add: cosine_embedding_loss_def broadcast_dim_def expand_dim_self expand_dim_single
      Let_def EPSILON_def)
  apply (rule arg_cong [where f = "fmean ops"])
  apply (thin_tac "length x \<noteq> Suc 0")
  apply (induction x)
   apply simp_all
  done

lemma fst_bg_faces_suppress_loss:
  "fst (bg_faces_suppress_loss ops suppress bg_emb)
     = (case (if suppress then bg_emb else None) of
          Some bg \<Rightarrow> fmean ops (map (\<lambda>x. fmul ops (Val x) (Val x)) (concat bg))
        | None \<Rightarrow> Val 0)"
  by (simp add: bg_faces_suppress_loss_def Let_def split: option.splits)

lemma calc_arcface_align_loss_no_failure:
  assumes "embed_image_tensor interpolate self ref_images T bleed False False False
             = ((Some r, ref_bg, ref_bboxes, []), ref_calls)"
    and "embed_image_tensor interpolate self aligned_images T bleed suppress use_whole True
             = ((Some a, al_bg, al_bboxes, []), al_calls)"
  shows "calc_arcface_align_loss interpolate self ref_images aligned_images T bleed suppress use_whole
     = (case tile_ref_emb r a of
          Inl e \<Rightarrow> (Inl e, ref_calls @ al_calls, [])
        | Inr t \<Rightarrow>
            (case cosine_embedding_loss (dtype self) t a (replicate (length t) 1) of
               Inl e \<Rightarrow> (Inl e, ref_calls @ al_calls, [])
             | Inr l \<Rightarrow>
                 (Inr (l, fst (bg_faces_suppress_loss (dtype self) suppress al_bg), al_bboxes),
                  ref_calls @ al_calls,
                  LossArcfaceAlign l # snd (bg_faces_suppress_loss (dtype self) suppress al_bg))))"
  using assms by (simp add: calc_arcface_align_loss_def split: sum.splits prod.splits)

subsection \<open>Evaluation in half precision\<close>

lemma half_ops_simps:
  "fmul half_ops x y = round_scalar half_round (scalar_mul x y)"
  "fadd half_ops x y = round_scalar half_round (scalar_add x y)"
  "fdiv half_ops x y = round_scalar half_round (scalar_div x y)"
  "fsqrt half_ops x = round_scalar half_round (scalar_sqrt x)"
  "fsum half_ops xs = round_scalar half_round (foldl scalar_add (Val 0) xs)"
  "fmean half_ops xs = (if xs = [] then NaN
     else round_scalar half_round (scalar_div (foldl scalar_add (Val 0) xs) (Val (real (length xs)))))"
  "fadd_scalar half_ops x c = round_scalar half_round (scalar_add x (Val c))"
  "frsub_scalar half_ops c x = round_scalar half_round (scalar_add (Val c) (scalar_neg x))"
  "fsub_scalar half_ops x c = round_scalar half_round (scalar_add x (Val (- c)))"
  "fclamp_min half_ops x c = round_scalar half_round (scalar_clamp_min x c)"
  by (simp_all add: half_ops_def rounded_ops_def)

lemma half_round_values:
  "half_round 0 = Val 0"
  "half_round 1 = Val 1"
  "half_round 2 = Val 2"
  "half_round (1 + 1 / 10 ^ 12) = Val 1"
  "half_round 16384 = Val 16384"
  "half_round (16384 + 1 / 10 ^ 12) = Val 16384"
  "half_round (16384 * 16384) = PosInf"
  "half_round (1 / 10) = Val (1638 / 16384)"
  "half_round (1 / 3) = Val (1365 / 4096)"
  "half_round 2049 = Val 2048"
  "half_round 2051 = Val 2052"
  "half_round 65519 = Val 65504"
  "half_round 65520 = PosInf"
  "half_round (- 70000) = NegInf"
  "half_round (1 / 33554432) = Val 0"
  "half_round (3 / 10 ^ 8) = Val (1 / 16777216)"
  by (simp_all add: half_round_def half_binades_def Let_def)

lemma round_scalar_simps:
  "round_scalar rnd (Val a) = rnd a"
  "round_scalar rnd NaN = NaN"
  "round_scalar rnd PosInf = PosInf"
  "round_scalar rnd NegInf = NegInf"
  by (simp_all add: round_scalar_def)

lemmas half_eval = half_ops_simps round_scalar_simps half_round_def half_binades_def
  signed_inf_def Let_def

lemma half_pair_loss_unit: "pair_loss half_ops [1] [1] = Val 0"
  by (simp add: half_eval)

lemma half_pair_loss_gray: "pair_loss half_ops [128] [128] = Val 1"
  by (simp add: half_eval)

lemma half_pair_loss_red: "pair_loss half_ops [255 * 0.299] [255 * 0.299] = Val 1"
  by (simp add: half_eval)

lemma half_pair_loss_zero: "pair_loss half_ops [0] [0] = NaN"
  by (simp add: half_eval)

lemma half_mean_values:
  "fmean half_ops [Val 0] = Val 0"
  "fmean half_ops [Val 1] = Val 1"
  "fmean half_ops [Val 0, Val 0] = Val 0"
  "fmean half_ops [Val 0, Val 0, Val 0, Val 0] = Val 0"
  by (simp_all add: half_eval)

lemma half_round_sqrt_61216: "half_round (sqrt 61216) = Val (1979 / 8)"
proof -
  have lo: "1979 / 8 \<le> sqrt 61216"
    by (rule real_le_rsqrt) (simp add: power2_eq_square)
  have hi: "sqrt 61216 < 3959 / 16"
    by (rule real_less_lsqrt) (simp_all add: power2_eq_square)
  have fl: "\<lfloor>sqrt 61216 * 8\<rfloor> = 1979"
    using lo hi by (intro floor_unique) simp_all
  show ?thesis
    using lo hi by (simp add: half_round_def half_binades_def Let_def fl)
qed

lemma half_pair_loss_red_crowd:
  "pair_loss half_ops [255 * 0.299] [3 * 0.299 + 4 * 0.587] = Val 0"
proof -
  have m1: "fadd_scalar half_ops
              (fsum half_ops (map2 (fmul half_ops) (map Val [255 * 0.299]) (map Val [255 * 0.299])))
              (1 / 10 ^ 12) = Val 5812"
    by (simp add: half_eval)
  have m2: "fadd_scalar half_ops
              (fsum half_ops (map2 (fmul half_ops) (map Val [3 * 0.299 + 4 * 0.587]) (map Val [3 * 0.299 + 4 * 0.587])))
              (1 / 10 ^ 12) = Val (337 / 32)"
    by (simp add: half_eval)
  have d: "fsum half_ops (map2 (fmul half_ops) (map Val [255 * 0.299]) (map Val [3 * 0.299 + 4 * 0.587]))
             = Val (1979 / 8)"
    by (simp add: half_eval)
  have p: "fmul half_ops (Val 5812) (Val (337 / 32)) = Val 61216"
    by (simp add: half_eval)
  have s: "fsqrt half_ops (Val 61216) = Val (1979 / 8)"
    by (simp add: half_ops_simps round_scalar_simps half_round_sqrt_61216)
  have q: "fdiv half_ops (Val (1979 / 8)) (Val (1979 / 8)) = Val 1"
    by (simp add: half_eval)
  have l: "frsub_scalar half_ops 1 (Val 1) = Val 0"
    by (simp add: half_eval)
  have z: "fadd half_ops (Val 0) (Val 0) = Val 0"
    by (simp add: half_eval)
  show ?thesis
    by (simp only: m1 m2 d p s q l z)
qed

lemma half_pair_loss_crowd_red:
  "pair_loss half_ops [3 * 0.299 + 4 * 0.587] [255 * 0.299] = Val 0"
proof -
  have m1: "fadd_scalar half_ops
              (fsum half_ops (map2 (fmul half_ops) (map Val [255 * 0.299]) (map Val [255 * 0.299])))
              (1 / 10 ^ 12) = Val 5812"
    by (simp add: half_eval)
  have m2: "fadd_scalar half_ops
              (fsum half_ops (map2 (fmul half_ops) (map Val [3 * 0.299 + 4 * 0.587]) (map Val [3 * 0.299 + 4 * 0.587])))
              (1 / 10 ^ 12) = Val (337 / 32)"
    by (simp add: half_eval)
  have d: "fsum half_ops (map2 (fmul half_ops) (map Val [3 * 0.299 + 4 * 0.587]) (map Val [255 * 0.299]))
             = Val (1979 / 8)"
    by (simp add: half_eval)
  have p: "fmul half_ops (Val (337 / 32)) (Val 5812) = Val 61216"
    by (simp add: half_eval)
  have s: "fsqrt half_ops (Val 61216) = Val (1979 / 8)"
    by (simp add: half_ops_simps round_scalar_simps half_round_sqrt_61216)
  have q: "fdiv half_ops (Val (1979 / 8)) (Val (1979 / 8)) = Val 1"
    by (simp add: half_eval)
  have l: "frsub_scalar half_ops 1 (Val 1) = Val 0"
    by (simp add: half_eval)
  have z: "fadd half_ops (Val 0) (Val 0) = Val 0"
    by (simp add: half_eval)
  show ?thesis
    by (simp only: m1 m2 d p s q l z)
qed

text \<open>
  The entries \<open>255 * 0.299\<close> and \<open>3 * 0.299 + 4 * 0.587\<close> of the stand-in embeddings lie
  between two values of float16. Rounded to the format first, they give the same losses.
\<close>

lemma half_round_entries:
  "half_round (255 * 0.299) = Val (305 / 4)"
  "half_round (3 * 0.299 + 4 * 0.587) = Val (1661 / 512)"
  "half_round 128 = Val 128"
  by (simp_all add: half_round_def half_binades_def Let_def)

lemma half_pair_loss_red_rounded: "pair_loss half_ops [305 / 4] [305 / 4] = Val 1"
  by (simp add: half_eval)

lemma half_pair_loss_red_crowd_rounded:
  "pair_loss half_ops [305 / 4] [1661 / 512] = Val 0"
  "pair_loss half_ops [1661 / 512] [305 / 4] = Val 0"
proof -
  have m1: "fadd_scalar half_ops
              (fsum half_ops (map2 (fmul half_ops) (map Val [305 / 4]) (map Val [305 / 4])))
              (1 / 10 ^ 12) = Val 5816"
    by (simp add: half_eval)
  have m2: "fadd_scalar half_ops
              (fsum half_ops (map2 (fmul half_ops) (map Val [1661 / 512]) (map Val [1661 / 512])))
              (1 / 10 ^ 12) = Val (1347 / 128)"
    by (simp add: half_eval)
  have d: "fsum half_ops (map2 (fmul half_ops) (map Val [305 / 4]) (map Val [1661 / 512]))
             = Val (1979 / 8)"
    "fsum half_ops (map2 (fmul half_ops) (map Val [1661 / 512]) (map Val [305 / 4]))
             = Val (1979 / 8)"
    by (simp_all add: half_eval)
  have p: "fmul half_ops (Val 5816) (Val (1347 / 128)) = Val 61216"
    "fmul half_ops (Val (1347 / 128)) (Val 5816) = Val 61216"
    by (simp_all add: half_eval)
  have s: "fsqrt half_ops (Val 61216) = Val (1979 / 8)"
    by (simp add: half_ops_simps round_scalar_simps half_round_sqrt_61216)
  have q: "fdiv half_ops (Val (1979 / 8)) (Val (1979 / 8)) = Val 1"
    by (simp add: half_eval)
  have l: "frsub_scalar half_ops 1 (Val 1) = Val 0"
    by (simp add: half_eval)
  have z: "fadd half_ops (Val 0) (Val 0) = Val 0"
    by (simp add: half_eval)
  show "pair_loss half_ops [305 / 4] [1661 / 512] = Val 0"
    by (simp only: m1 m2 d p s q l z)
  show "pair_loss half_ops [1661 / 512] [305 / 4] = Val 0"
    by (simp only: m1 m2 d p s q l z)
qed

subsection \<open>The alignment loss when no instance failed\<close>


lemma map_two: "map f [a, b] = [f a, f b]"
  by simp



lemma embed_ref_red:
  "embed_image_tensor stub_interpolate stub_wrapper [red_image] 20 2 False False False
     = ((Some [[255 * 0.299]], None, Some [(0, 0, 1, 1)], []),
        [ArcfaceCall FgFaces [[[255 * 0.299]]] False])"
  by (simp add: stub_defs)






subsection \<open>Tiling of the reference embeddings\<close>

lemma length_repeat_rows: "length (repeat_rows k rows) = k * length rows"
  by (induction k) (simp_all add: repeat_rows_def)

lemma nth_repeat_rows:
  "i < k * length rows \<Longrightarrow> repeat_rows k rows ! i = rows ! (i mod length rows)"
proof (induction k arbitrary: i)
  case 0
  then show ?case by simp
next
  case (Suc k)
  show ?case
  proof (cases "i < length rows")
    case True
    then show ?thesis by (simp add: repeat_rows_def nth_append)
  next
    case False
    then have "i - length rows < k * length rows" using Suc.prems by simp
    then have "repeat_rows k rows ! (i - length rows) = rows ! ((i - length rows) mod length rows)"
      by (rule Suc.IH)
    moreover have "(i - length rows) mod length rows = i mod length rows"
      using False by (simp add: le_mod_geq)
    ultimately show ?thesis using False by (simp add: repeat_rows_def nth_append)
  qed
qed

lemma repeat_rows_single: "repeat_rows k [e] = replicate k e"
  by (induction k) (simp_all add: repeat_rows_def)

lemma tiled_rows_mismatch:
  assumes "0 < (n::nat)" and "n < m" and "\<not> n dvd m"
  shows "(m div n) * n \<noteq> m" and "(m div n) * n \<noteq> 1" and "m \<noteq> 1"
proof -
  show "(m div n) * n \<noteq> m" using assms(3) by (metis dvd_triv_right)
  have "n \<noteq> 1" using assms(3) by auto
  then have n2: "2 \<le> n" using assms(1) by simp
  have "1 \<le> m div n" using assms(1,2) by (simp add: Suc_leI div_greater_zero_iff)
  then have "n \<le> (m div n) * n" by simp
  then show "(m div n) * n \<noteq> 1" using n2 by simp
  show "m \<noteq> 1" using assms(1,2) by simp
qed

subsection \<open>Batch sizes that are not multiples\<close>

text \<open>
  C3 (as amended). The function has no divisibility check of its own. When no instance
  failed and the reference count does not divide the generated count, the call ends in an
  exception and returns no loss, except where several reference embeddings meet a single
  generated one: ZeroDivisionError from the integer division when the reference batch is
  empty, otherwise the library's shape-mismatch error from the loss. With two or more
  reference embeddings and a single generated one no exception is raised: the library
  broadcasts the generated embedding against every reference embedding, and the loss
  returned is the mean over the reference embeddings of the loss of each paired with the
  one generated embedding.
\<close>

theorem calc_arcface_align_loss_not_multiple:
  assumes "embed_image_tensor interpolate self ref_images T bleed False False False
             = ((Some r, ref_bg, ref_bboxes, []), ref_calls)"
    and "embed_image_tensor interpolate self aligned_images T bleed suppress use_whole True
             = ((Some a, al_bg, al_bboxes, []), al_calls)"
    and "\<not> length r dvd length a"
  shows "((length a = 1 \<longrightarrow> length r = 0) \<longrightarrow>
            calc_arcface_align_loss interpolate self ref_images aligned_images T bleed suppress use_whole
              = (Inl (if length r = 0 then ZeroDivisionError else RuntimeError), ref_calls @ al_calls, []))
     \<and> (length a = 1 \<and> 2 \<le> length r \<longrightarrow>
            fst (calc_arcface_align_loss interpolate self ref_images aligned_images T bleed suppress use_whole)
              = Inr (fmean (dtype self)
                       (map (\<lambda>u.
                          fadd (dtype self)
                (frsub_scalar (dtype self) 1
                   (fdiv (dtype self)
                      (fsum (dtype self) (map2 (fmul (dtype self)) (map Val u) (map Val (a ! 0))))
                      (fsqrt (dtype self)
                         (fmul (dtype self)
                            (fadd_scalar (dtype self)
                               (fsum (dtype self) (map2 (fmul (dtype self)) (map Val u) (map Val u))) (1 / 10 ^ 12))
                            (fadd_scalar (dtype self)
                               (fsum (dtype self) (map2 (fmul (dtype self)) (map Val (a ! 0)) (map Val (a ! 0)))) (1 / 10 ^ 12))))))
                (Val 0))
                          r),
                     (case (if suppress then al_bg else None) of
               Some bg \<Rightarrow> fmean (dtype self) (map (\<lambda>x. fmul (dtype self) (Val x) (Val x)) (concat bg))
             | None \<Rightarrow> Val 0),
                     al_bboxes))"
proof (intro conjI impI)
  assume single: "length a = 1 \<longrightarrow> length r = 0"
  show "calc_arcface_align_loss interpolate self ref_images aligned_images T bleed suppress use_whole
          = (Inl (if length r = 0 then ZeroDivisionError else RuntimeError), ref_calls @ al_calls, [])"
  proof (cases "length r < length a")
    case True
    show ?thesis
    proof (cases "length r = 0")
      case True
      then have "0 < length a" using assms(3) by (cases "length a") auto
      with True show ?thesis
        unfolding calc_arcface_align_loss_no_failure [OF assms(1,2)]
        by (simp add: tile_ref_emb_def)
    next
      case False
      then have pos: "0 < length r" by simp
      let ?t = "repeat_rows (length a div length r) r"
      have t: "tile_ref_emb r a = Inr ?t"
        using True False by (simp add: tile_ref_emb_def)
      have "cosine_embedding_loss (dtype self) ?t a (replicate (length ?t) 1) = Inl RuntimeError"
        using tiled_rows_mismatch [OF pos True assms(3)]
        by (intro cosine_embedding_loss_mismatch) (simp_all add: length_repeat_rows)
      with t False show ?thesis
        unfolding calc_arcface_align_loss_no_failure [OF assms(1,2)] by simp
    qed
  next
    case False
    then have ge: "length a \<le> length r" by simp
    have ne: "length r \<noteq> length a" using assms(3) by auto
    have a0: "length a \<noteq> 0" using assms(3) by auto
    have r1: "length r \<noteq> 1" using assms(3) by auto
    have r0: "length r \<noteq> 0" using ge a0 by auto
    have a1: "length a \<noteq> 1" using single r0 by auto
    have t: "tile_ref_emb r a = Inr r" using False by (simp add: tile_ref_emb_def)
    have "cosine_embedding_loss (dtype self) r a (replicate (length r) 1) = Inl RuntimeError"
      using ne r1 a1 by (rule cosine_embedding_loss_mismatch)
    with t r0 show ?thesis
      unfolding calc_arcface_align_loss_no_failure [OF assms(1,2)] by simp
  qed
next
  assume h: "length a = 1 \<and> 2 \<le> length r"
  then obtain v where a: "a = [v]" by (cases a) auto
  have e2: "embed_image_tensor interpolate self aligned_images T bleed suppress use_whole True
             = ((Some [v], al_bg, al_bboxes, []), al_calls)"
    using assms(2) a by simp
  have t: "tile_ref_emb r [v] = Inr r" using h by (auto simp: tile_ref_emb_def)
  have r1: "length r \<noteq> 1" using h by simp
  show "fst (calc_arcface_align_loss interpolate self ref_images aligned_images T bleed suppress use_whole)
              = Inr (fmean (dtype self)
                       (map (\<lambda>u.
                          fadd (dtype self)
                (frsub_scalar (dtype self) 1
                   (fdiv (dtype self)
                      (fsum (dtype self) (map2 (fmul (dtype self)) (map Val u) (map Val (a ! 0))))
                      (fsqrt (dtype self)
                         (fmul (dtype self)
                            (fadd_scalar (dtype self)
                               (fsum (dtype self) (map2 (fmul (dtype self)) (map Val u) (map Val u))) (1 / 10 ^ 12))
                            (fadd_scalar (dtype self)
                               (fsum (dtype self) (map2 (fmul (dtype self)) (map Val (a ! 0)) (map Val (a ! 0)))) (1 / 10 ^ 12))))))
                (Val 0))
                          r),
                     (case (if suppress then al_bg else None) of
               Some bg \<Rightarrow> fmean (dtype self) (map (\<lambda>x. fmul (dtype self) (Val x) (Val x)) (concat bg))
             | None \<Rightarrow> Val 0),
                     al_bboxes)"
    unfolding calc_arcface_align_loss_no_failure [OF assms(1) e2] t sum.case
      cosine_embedding_loss_one_row [OF r1] fst_bg_faces_suppress_loss
    by (simp add: a)
qed

lemma embed_ref_red_crowd:
  "embed_image_tensor stub_interpolate stub_wrapper [red_image, crowd_image] 20 2 False False False
     = ((Some [[255 * 0.299], [3 * 0.299 + 4 * 0.587]], None, Some [(0, 0, 1, 1), (0, 0, 1, 1)], []),
        [ArcfaceCall FgFaces [[[255 * 0.299]], [[3 * 0.299 + 4 * 0.587]]] False])"
  by (simp add: stub_defs)

lemma embed_aligned_five:
  "embed_image_tensor stub_interpolate stub_wrapper [red_image, red_image, red_image, red_image, red_image] 20 2 True False True
     = ((Some [[255 * 0.299], [255 * 0.299], [255 * 0.299], [255 * 0.299], [255 * 0.299]], None,
         Some [(0, 0, 1, 1), (0, 0, 1, 1), (0, 0, 1, 1), (0, 0, 1, 1), (0, 0, 1, 1)], []),
        [ArcfaceCall FgFaces [[[255 * 0.299]], [[255 * 0.299]], [[255 * 0.299]], [[255 * 0.299]], [[255 * 0.299]]] True])"
  by (simp add: stub_defs)

lemma embed_ref_unit_unit:
  "embed_image_tensor stub_interpolate stub_wrapper [unit_image, unit_image] 20 2 False False False
     = ((Some [[1], [1]], None, Some [(0, 0, 1, 1), (0, 0, 1, 1)], []),
        [ArcfaceCall FgFaces [[[1]], [[1]]] False])"
  by (simp add: stub_defs)

lemma embed_aligned_unit_no_bg:
  "embed_image_tensor stub_interpolate stub_wrapper [unit_image] 20 2 False False True
     = ((Some [[1]], None, Some [(0, 0, 1, 1)], []),
        [ArcfaceCall FgFaces [[[1]]] True])"
  by (simp add: stub_defs)

theorem calc_arcface_align_loss_not_multiple_witness:
  "fst (calc_arcface_align_loss stub_interpolate stub_wrapper [red_image, crowd_image]
         [red_image, red_image, red_image, red_image, red_image] 20 2 True False) = Inl RuntimeError
   \<and> fst (calc_arcface_align_loss stub_interpolate stub_wrapper [unit_image, unit_image]
         [unit_image] 20 2 False False) = Inr (Val 0, Val 0, Some [(0, 0, 1, 1)])"
proof -
  let ?r = "[[255 * 0.299], [3 * 0.299 + 4 * 0.587]] :: emb_batch"
  let ?a = "[[255 * 0.299], [255 * 0.299], [255 * 0.299], [255 * 0.299], [255 * 0.299]] :: emb_batch"
  have l2: "length ?r = 2" and l5: "length ?a = 5" by simp_all
  have d: "\<not> length ?r dvd length ?a" unfolding l2 l5 by simp
  have n: "length ?a = 1 \<longrightarrow> length ?r = 0" by simp
  have first: "fst (calc_arcface_align_loss stub_interpolate stub_wrapper [red_image, crowd_image]
         [red_image, red_image, red_image, red_image, red_image] 20 2 True False) = Inl RuntimeError"
    using calc_arcface_align_loss_not_multiple
        [OF embed_ref_red_crowd embed_aligned_five d, THEN conjunct1, THEN mp, OF n]
    by simp
  let ?u = "[[1], [1]] :: emb_batch"
  let ?v = "[[1]] :: emb_batch"
  have u2: "length ?u = 2" and v1: "length ?v = 1" by simp_all
  have d': "\<not> length ?u dvd length ?v" unfolding u2 v1 by simp
  have h: "length ?v = 1 \<and> 2 \<le> length ?u" by simp
  have dt: "dtype stub_wrapper = half_ops" by (simp add: stub_wrapper_def)
  have second: "fst (calc_arcface_align_loss stub_interpolate stub_wrapper [unit_image, unit_image]
         [unit_image] 20 2 False False) = Inr (Val 0, Val 0, Some [(0, 0, 1, 1)])"
    using calc_arcface_align_loss_not_multiple
        [OF embed_ref_unit_unit embed_aligned_unit_no_bg d', THEN conjunct2, THEN mp, OF h]
    by (simp add: dt half_pair_loss_unit [simplified] half_mean_values [simplified])
  from first second show ?thesis by simp
qed

lemma embed_aligned_red:
  "embed_image_tensor stub_interpolate stub_wrapper [red_image] 20 2 True False True
     = ((Some [[255 * 0.299]], None, Some [(0, 0, 1, 1)], []),
        [ArcfaceCall FgFaces [[[255 * 0.299]]] True])"
  by (simp add: stub_defs)

text \<open>
  Two reference embeddings and one generated embedding: 2 does not divide 1, yet the call
  returns a loss, the mean over both reference embeddings paired with the one generated
  embedding (1 for the first pair, whose norm product overflows, 0 for the second).
\<close>

theorem calc_arcface_align_loss_not_multiple_counterexample:
  "fst (fst (embed_image_tensor stub_interpolate stub_wrapper [red_image, crowd_image] 20 2 False False False))
     = Some [[255 * 0.299], [3 * 0.299 + 4 * 0.587]]
   \<and> fst (fst (embed_image_tensor stub_interpolate stub_wrapper [red_image] 20 2 True False True))
     = Some [[255 * 0.299]]
   \<and> \<not> (2::nat) dvd 1
   \<and> fst (calc_arcface_align_loss stub_interpolate stub_wrapper [red_image, crowd_image] [red_image] 20 2 True False)
     = Inr (Val (1 / 2), Val 0, Some [(0, 0, 1, 1)])"
proof -
  have dt: "dtype stub_wrapper = half_ops" by (simp add: stub_wrapper_def)
  have r1: "length [[255 * 0.299], [3 * 0.299 + 4 * 0.587 :: real]] \<noteq> 1" by simp
  have m: "fmean half_ops [Val 1, Val 0] = Val (1 / 2)"
    by (simp add: half_eval)
  have l: "cosine_embedding_loss half_ops [[255 * 0.299], [3 * 0.299 + 4 * 0.587]] [[255 * 0.299]]
             (replicate (length [[255 * 0.299], [3 * 0.299 + 4 * 0.587 :: real]]) 1) = Inr (Val (1 / 2))"
    unfolding cosine_embedding_loss_one_row [OF r1]
    by (simp only: map_two half_pair_loss_red half_pair_loss_crowd_red m)
  have c: "fst (calc_arcface_align_loss stub_interpolate stub_wrapper [red_image, crowd_image] [red_image] 20 2 True False)
     = Inr (Val (1 / 2), Val 0, Some [(0, 0, 1, 1)])"
    unfolding calc_arcface_align_loss_no_failure [OF embed_ref_red_crowd embed_aligned_red] dt
    using l by (simp add: tile_ref_emb_def bg_faces_suppress_loss_def)
  show ?thesis
    using c by (simp add: embed_ref_red_crowd embed_aligned_red)
qed

subsection \<open>Tiling by the integer ratio\<close>

text \<open>
  C2 (as amended). When no instance failed and the reference batch is strictly smaller
  than the generated batch, the reference embeddings enter the loss tiled by the integer
  ratio (generated count div reference count): row \<open>i\<close> of the tiled batch is reference
  row \<open>i mod\<close> reference count. The two batches align one-to-one in order exactly when the
  reference count divides the generated count, and then the loss is computed over the pairs
  of reference row \<open>i mod\<close> reference count and generated row \<open>i\<close>; a single reference
  embedding against four generated ones is tiled to four identical rows. When the
  reference count does not divide the generated count the tiled batch is shorter than the
  generated batch, and with an empty reference batch the integer division raises.
\<close>

theorem calc_arcface_align_loss_tiles:
  assumes "embed_image_tensor interpolate self ref_images T bleed False False False
             = ((Some r, ref_bg, ref_bboxes, []), ref_calls)"
    and "embed_image_tensor interpolate self aligned_images T bleed suppress use_whole True
             = ((Some a, al_bg, al_bboxes, []), al_calls)"
    and "length r < length a"
  shows "(length r = 0 \<longrightarrow>
            calc_arcface_align_loss interpolate self ref_images aligned_images T bleed suppress use_whole
              = (Inl ZeroDivisionError, ref_calls @ al_calls, []))
     \<and> (0 < length r \<longrightarrow>
            length (concat (replicate (length a div length r) r)) = (length a div length r) * length r
          \<and> (\<forall>i < (length a div length r) * length r.
                concat (replicate (length a div length r) r) ! i = r ! (i mod length r))
          \<and> fst (calc_arcface_align_loss interpolate self ref_images aligned_images T bleed suppress use_whole)
              = (case cosine_embedding_loss (dtype self) (concat (replicate (length a div length r) r)) a
                        (replicate ((length a div length r) * length r) 1) of
                   Inl e \<Rightarrow> Inl e
                 | Inr l \<Rightarrow> Inr (l, (case (if suppress then al_bg else None) of
               Some bg \<Rightarrow> fmean (dtype self) (map (\<lambda>x. fmul (dtype self) (Val x) (Val x)) (concat bg))
             | None \<Rightarrow> Val 0), al_bboxes)))
     \<and> (0 < length r \<and> length r dvd length a \<longrightarrow>
            fst (calc_arcface_align_loss interpolate self ref_images aligned_images T bleed suppress use_whole)
              = Inr (fmean (dtype self)
                       (map (\<lambda>i.
                          fadd (dtype self)
                (frsub_scalar (dtype self) 1
                   (fdiv (dtype self)
                      (fsum (dtype self) (map2 (fmul (dtype self)) (map Val (r ! (i mod length r))) (map Val (a ! i))))
                      (fsqrt (dtype self)
                         (fmul (dtype self)
                            (fadd_scalar (dtype self)
                               (fsum (dtype self) (map2 (fmul (dtype self)) (map Val (r ! (i mod length r))) (map Val (r ! (i mod length r))))) (1 / 10 ^ 12))
                            (fadd_scalar (dtype self)
                               (fsum (dtype self) (map2 (fmul (dtype self)) (map Val (a ! i)) (map Val (a ! i)))) (1 / 10 ^ 12))))))
                (Val 0))
                          [0..<length a]),
                     (case (if suppress then al_bg else None) of
               Some bg \<Rightarrow> fmean (dtype self) (map (\<lambda>x. fmul (dtype self) (Val x) (Val x)) (concat bg))
             | None \<Rightarrow> Val 0),
                     al_bboxes))
     \<and> (\<forall>e. r = [e] \<and> length a = 4 \<longrightarrow>
            concat (replicate (length a div length r) r) = [e, e, e, e])
     \<and> (0 < length r \<and> \<not> length r dvd length a \<longrightarrow>
            length (concat (replicate (length a div length r) r)) < length a)"
proof (intro conjI impI allI)
  assume "length r = 0"
  then show "calc_arcface_align_loss interpolate self ref_images aligned_images T bleed suppress use_whole
              = (Inl ZeroDivisionError, ref_calls @ al_calls, [])"
    unfolding calc_arcface_align_loss_no_failure [OF assms(1,2)]
    using assms(3) by (simp add: tile_ref_emb_def)
next
  assume "0 < length r"
  show "length (concat (replicate (length a div length r) r)) = (length a div length r) * length r"
    using length_repeat_rows [of "length a div length r" r] by (simp add: repeat_rows_def)
next
  fix i
  assume "0 < length r" and "i < (length a div length r) * length r"
  then show "concat (replicate (length a div length r) r) ! i = r ! (i mod length r)"
    using nth_repeat_rows [of i "length a div length r" r] by (simp add: repeat_rows_def)
next
  assume pos: "0 < length r"
  have t: "tile_ref_emb r a = Inr (concat (replicate (length a div length r) r))"
    using pos assms(3) by (simp add: tile_ref_emb_def repeat_rows_def)
  have len: "length (concat (replicate (length a div length r) r)) = (length a div length r) * length r"
    using length_repeat_rows [of "length a div length r" r] by (simp add: repeat_rows_def)
  show "fst (calc_arcface_align_loss interpolate self ref_images aligned_images T bleed suppress use_whole)
              = (case cosine_embedding_loss (dtype self) (concat (replicate (length a div length r) r)) a
                        (replicate ((length a div length r) * length r) 1) of
                   Inl e \<Rightarrow> Inl e
                 | Inr l \<Rightarrow> Inr (l, (case (if suppress then al_bg else None) of
               Some bg \<Rightarrow> fmean (dtype self) (map (\<lambda>x. fmul (dtype self) (Val x) (Val x)) (concat bg))
             | None \<Rightarrow> Val 0), al_bboxes))"
    unfolding calc_arcface_align_loss_no_failure [OF assms(1,2)] t sum.case len
      fst_bg_faces_suppress_loss
    by (simp split: sum.splits)
next
  assume h: "0 < length r \<and> length r dvd length a"
  let ?t = "concat (replicate (length a div length r) r)"
  have t: "tile_ref_emb r a = Inr ?t"
    using h assms(3) by (simp add: tile_ref_emb_def repeat_rows_def)
  have len: "length ?t = length a"
    using h length_repeat_rows [of "length a div length r" r] by (simp add: repeat_rows_def)
  have nth: "?t ! i = r ! (i mod length r)" if "i < length a" for i
    using that h nth_repeat_rows [of i "length a div length r" r] by (simp add: repeat_rows_def)
  have rows: "map2 (pair_loss (dtype self)) ?t a
                = map (\<lambda>i. pair_loss (dtype self) (r ! (i mod length r)) (a ! i)) [0..<length a]"
    using len nth by (intro nth_equalityI) simp_all
  show "fst (calc_arcface_align_loss interpolate self ref_images aligned_images T bleed suppress use_whole)
              = Inr (fmean (dtype self)
                       (map (\<lambda>i.
                          fadd (dtype self)
                (frsub_scalar (dtype self) 1
                   (fdiv (dtype self)
                      (fsum (dtype self) (map2 (fmul (dtype self)) (map Val (r ! (i mod length r))) (map Val (a ! i))))
                      (fsqrt (dtype self)
                         (fmul (dtype self)
                            (fadd_scalar (dtype self)
                               (fsum (dtype self) (map2 (fmul (dtype self)) (map Val (r ! (i mod length r))) (map Val (r ! (i mod length r))))) (1 / 10 ^ 12))
                            (fadd_scalar (dtype self)
                               (fsum (dtype self) (map2 (fmul (dtype self)) (map Val (a ! i)) (map Val (a ! i)))) (1 / 10 ^ 12))))))
                (Val 0))
                          [0..<length a]),
                     (case (if suppress then al_bg else None) of
               Some bg \<Rightarrow> fmean (dtype self) (map (\<lambda>x. fmul (dtype self) (Val x) (Val x)) (concat bg))
             | None \<Rightarrow> Val 0),
                     al_bboxes)"
    unfolding calc_arcface_align_loss_no_failure [OF assms(1,2)] t sum.case
      cosine_embedding_loss_ones [OF len] fst_bg_faces_suppress_loss rows
    by simp
next
  fix e
  assume "r = [e] \<and> length a = 4"
  then show "concat (replicate (length a div length r) r) = [e, e, e, e]"
    by (simp add: numeral_eq_Suc)
next
  assume h: "0 < length r \<and> \<not> length r dvd length a"
  have ne: "(length a div length r) * length r \<noteq> length a"
    using h by (metis dvd_triv_right)
  have le: "(length a div length r) * length r \<le> length a" by simp
  have "length (concat (replicate (length a div length r) r)) = (length a div length r) * length r"
    using length_repeat_rows [of "length a div length r" r] by (simp add: repeat_rows_def)
  then show "length (concat (replicate (length a div length r) r)) < length a"
    using ne le by linarith
qed

lemma embed_ref_unit:
  "embed_image_tensor stub_interpolate stub_wrapper [unit_image] 20 2 False False False
     = ((Some [[1]], None, Some [(0, 0, 1, 1)], []),
        [ArcfaceCall FgFaces [[[1]]] False])"
  by (simp add: stub_defs)

lemma embed_aligned_four_units:
  "embed_image_tensor stub_interpolate stub_wrapper [unit_image, unit_image, unit_image, unit_image] 20 2 False False True
     = ((Some [[1], [1], [1], [1]], None, Some [(0, 0, 1, 1), (0, 0, 1, 1), (0, 0, 1, 1), (0, 0, 1, 1)], []),
        [ArcfaceCall FgFaces [[[1]], [[1]], [[1]], [[1]]] True])"
  by (simp add: stub_defs)

lemma embed_ref_unit_gray:
  "embed_image_tensor stub_interpolate stub_wrapper [unit_image, gray_image] 20 2 False False False
     = ((Some [[1], [128]], None, Some [(0, 0, 1, 1), (0, 0, 1, 1)], []),
        [ArcfaceCall FgFaces [[[1]], [[128]]] False])"
  by (simp add: stub_defs)

lemma embed_aligned_unit_gray_twice:
  "embed_image_tensor stub_interpolate stub_wrapper [unit_image, gray_image, unit_image, gray_image] 20 2 False False True
     = ((Some [[1], [128], [1], [128]], None, Some [(0, 0, 1, 1), (0, 0, 1, 1), (0, 0, 1, 1), (0, 0, 1, 1)], []),
        [ArcfaceCall FgFaces [[[1]], [[128]], [[1]], [[128]]] True])"
  by (simp add: stub_defs)

theorem calc_arcface_align_loss_tiles_witness:
  "concat (replicate (length [[1 :: real], [1], [1], [1]] div length [[1 :: real]]) [[1 :: real]])
     = [[1], [1], [1], [1]]
   \<and> fst (calc_arcface_align_loss stub_interpolate stub_wrapper [unit_image]
         [unit_image, unit_image, unit_image, unit_image] 20 2 False False)
     = Inr (Val 0, Val 0, Some [(0, 0, 1, 1), (0, 0, 1, 1), (0, 0, 1, 1), (0, 0, 1, 1)])
   \<and> fst (calc_arcface_align_loss stub_interpolate stub_wrapper [unit_image, gray_image]
         [unit_image, gray_image, unit_image, gray_image] 20 2 False False)
     = Inr (Val (1 / 2), Val 0, Some [(0, 0, 1, 1), (0, 0, 1, 1), (0, 0, 1, 1), (0, 0, 1, 1)])"
proof -
  have dt: "dtype stub_wrapper = half_ops" by (simp add: stub_wrapper_def)
  let ?r = "[[1]] :: emb_batch"
  let ?a = "[[1], [1], [1], [1]] :: emb_batch"
  have lt: "length ?r < length ?a" by simp
  note one = calc_arcface_align_loss_tiles [OF embed_ref_unit embed_aligned_four_units lt]
  have tiled: "concat (replicate (length ?a div length ?r) ?r) = [[1], [1], [1], [1]]"
    using one [THEN conjunct2, THEN conjunct2, THEN conjunct2, THEN conjunct1, THEN spec, of "[1]"] by simp
  have dv: "0 < length ?r \<and> length ?r dvd length ?a" by simp
  have first: "fst (calc_arcface_align_loss stub_interpolate stub_wrapper [unit_image]
         [unit_image, unit_image, unit_image, unit_image] 20 2 False False)
     = Inr (Val 0, Val 0, Some [(0, 0, 1, 1), (0, 0, 1, 1), (0, 0, 1, 1), (0, 0, 1, 1)])"
    using one [THEN conjunct2, THEN conjunct2, THEN conjunct1, THEN mp, OF dv]
    by (simp add: dt upt_rec numeral_eq_Suc half_pair_loss_unit [simplified] half_mean_values [simplified])
  let ?r2 = "[[1], [128]] :: emb_batch"
  let ?a2 = "[[1], [128], [1], [128]] :: emb_batch"
  have lt2: "length ?r2 < length ?a2" by simp
  have l2: "length ?r2 = 2" and l4: "length ?a2 = 4" by simp_all
  have dv2: "0 < length ?r2 \<and> length ?r2 dvd length ?a2" unfolding l2 l4 by simp
  have m: "fmean half_ops [Val 0, Val 1, Val 0, Val 1] = Val (1 / 2)"
    by (simp add: half_eval)
  have second: "fst (calc_arcface_align_loss stub_interpolate stub_wrapper [unit_image, gray_image]
         [unit_image, gray_image, unit_image, gray_image] 20 2 False False)
     = Inr (Val (1 / 2), Val 0, Some [(0, 0, 1, 1), (0, 0, 1, 1), (0, 0, 1, 1), (0, 0, 1, 1)])"
    using calc_arcface_align_loss_tiles [OF embed_ref_unit_gray embed_aligned_unit_gray_twice lt2,
        THEN conjunct2, THEN conjunct2, THEN conjunct1, THEN mp, OF dv2]
    by (simp add: dt upt_rec numeral_eq_Suc mod_Suc half_pair_loss_unit [simplified]
        half_pair_loss_gray [simplified] m [simplified])
  from tiled first second show ?thesis by simp
qed

text \<open>
  Two reference embeddings and five generated ones: the integer ratio is 2, the tiled
  reference batch has four rows against five generated rows, so the batches do not align
  one-to-one, and the call raises.
\<close>

theorem calc_arcface_align_loss_tiles_counterexample:
  "fst (fst (embed_image_tensor stub_interpolate stub_wrapper [red_image, crowd_image] 20 2 False False False))
     = Some [[255 * 0.299], [3 * 0.299 + 4 * 0.587]]
   \<and> fst (fst (embed_image_tensor stub_interpolate stub_wrapper
         [red_image, red_image, red_image, red_image, red_image] 20 2 True False True))
     = Some [[255 * 0.299], [255 * 0.299], [255 * 0.299], [255 * 0.299], [255 * 0.299]]
   \<and> tile_ref_emb [[255 * 0.299], [3 * 0.299 + 4 * 0.587]]
         [[255 * 0.299], [255 * 0.299], [255 * 0.299], [255 * 0.299], [255 * 0.299]]
     = Inr [[255 * 0.299], [3 * 0.299 + 4 * 0.587], [255 * 0.299], [3 * 0.299 + 4 * 0.587]]
   \<and> fst (calc_arcface_align_loss stub_interpolate stub_wrapper [red_image, crowd_image]
         [red_image, red_image, red_image, red_image, red_image] 20 2 True False)
     = Inl RuntimeError"
proof -
  have t: "tile_ref_emb [[255 * 0.299], [3 * 0.299 + 4 * 0.587]]
         [[255 * 0.299], [255 * 0.299], [255 * 0.299], [255 * 0.299], [255 * 0.299]]
     = Inr [[255 * 0.299], [3 * 0.299 + 4 * 0.587], [255 * 0.299], [3 * 0.299 + 4 * 0.587]]"
  proof -
    have l5: "length [[255 * 0.299], [255 * 0.299], [255 * 0.299], [255 * 0.299], [255 * 0.299 :: real]] = 5"
      and l2: "length [[255 * 0.299], [3 * 0.299 + 4 * 0.587 :: real]] = 2" by simp_all
    have d: "(5 :: nat) div 2 = 2" by simp
    show ?thesis
      unfolding tile_ref_emb_def repeat_rows_def l5 l2 d by (simp add: numeral_2_eq_2)
  qed
  have l: "cosine_embedding_loss half_ops
             [[255 * 0.299], [3 * 0.299 + 4 * 0.587], [255 * 0.299], [3 * 0.299 + 4 * 0.587]]
             [[255 * 0.299], [255 * 0.299], [255 * 0.299], [255 * 0.299], [255 * 0.299]] tg
           = Inl RuntimeError" for tg
    by (rule cosine_embedding_loss_mismatch) simp_all
  have dt: "dtype stub_wrapper = half_ops" by (simp add: stub_wrapper_def)
  have c: "fst (calc_arcface_align_loss stub_interpolate stub_wrapper [red_image, crowd_image]
         [red_image, red_image, red_image, red_image, red_image] 20 2 True False)
     = Inl RuntimeError"
    unfolding calc_arcface_align_loss_no_failure [OF embed_ref_red_crowd embed_aligned_five] t sum.case dt l
    by simp
  show ?thesis
    using t c by (simp add: embed_ref_red_crowd embed_aligned_five)
qed

subsection \<open>Background suppression\<close>

lemma embed_image_tensor_no_bg_sites:
  "\<forall>c \<in> set (snd (embed_image_tensor interpolate self images T bleed False use_whole enable_grad)). site c = FgFaces"
  by (simp add: embed_image_tensor_def Let_def split: prod.splits option.splits)

lemma embed_image_tensor_bg_absent:
  assumes "crop_faces self images (128, 128) T bleed use_whole = (fg, None, bb, failed)"
  shows "embed_image_tensor interpolate self images T bleed True use_whole enable_grad
           = embed_image_tensor interpolate self images T bleed False use_whole enable_grad"
  using assms by (simp add: embed_image_tensor_def Let_def split: option.splits)

lemma embed_image_tensor_bg_absent_emb:
  assumes "crop_faces self images (128, 128) T bleed use_whole = (fg, None, bb, failed)"
  shows "fst (snd (fst (embed_image_tensor interpolate self images T bleed embed_bg use_whole enable_grad))) = None"
  using assms by (simp add: embed_image_tensor_def Let_def split: option.splits)

lemma embed_image_tensor_no_bg_emb:
  "fst (snd (fst (embed_image_tensor interpolate self images T bleed False use_whole enable_grad))) = None"
  by (simp add: embed_image_tensor_def Let_def split: prod.splits option.splits)

lemma calc_arcface_align_loss_bg_zero:
  assumes "fst (snd (fst (embed_image_tensor interpolate self aligned_images T bleed suppress use_whole True))) = None"
    and "fst (calc_arcface_align_loss interpolate self ref_images aligned_images T bleed suppress use_whole) = Inr (la, lb, bbs)"
  shows "lb = Val 0"
  using assms
  by (auto simp: calc_arcface_align_loss_def Let_def bg_faces_suppress_loss_def
      split: prod.splits option.splits sum.splits if_splits)

lemma calc_arcface_align_loss_calls:
  "fst (snd (calc_arcface_align_loss interpolate self ref_images aligned_images T bleed suppress use_whole))
     = snd (embed_image_tensor interpolate self ref_images T bleed False False False)
       @ snd (embed_image_tensor interpolate self aligned_images T bleed suppress use_whole True)"
  by (simp add: calc_arcface_align_loss_def Let_def split: prod.splits option.splits sum.splits)

lemma calc_arcface_align_loss_suppress_irrelevant:
  assumes "crop_faces self aligned_images (128, 128) T bleed use_whole = (fg, None, bb, failed)"
  shows "fst (calc_arcface_align_loss interpolate self ref_images aligned_images T bleed True use_whole)
           = fst (calc_arcface_align_loss interpolate self ref_images aligned_images T bleed False use_whole)"
proof -
  have none: "fst (snd (fst (embed_image_tensor interpolate self aligned_images T bleed False use_whole True))) = None"
    by (rule embed_image_tensor_no_bg_emb)
  show ?thesis
    using none
    by (auto simp: calc_arcface_align_loss_def embed_image_tensor_bg_absent [OF assms] Let_def
        bg_faces_suppress_loss_def split: prod.splits option.splits sum.splits)
qed

text \<open>
  C6. Called with \<open>suppress_bg_faces = False\<close>, \<open>calc_arcface_align_loss\<close> never runs
  the embedder at the background call site, whatever the localizer returns, and every
  triple it returns has background-suppression loss 0. When suppression is requested and
  the localizer found no background faces in the generated images, the call returns or
  raises exactly what it does without suppression, so the background loss is 0 and no
  error arises from the absent background faces.
\<close>

theorem calc_arcface_align_loss_background:
  "(\<forall>c \<in> set (fst (snd (calc_arcface_align_loss interpolate self ref_images aligned_images T bleed False use_whole))).
       site c = FgFaces)
   \<and> (\<forall>la lb bbs. fst (calc_arcface_align_loss interpolate self ref_images aligned_images T bleed False use_whole)
                      = Inr (la, lb, bbs) \<longrightarrow> lb = Val 0)
   \<and> (\<forall>fg bb failed. crop_faces self aligned_images (128, 128) T bleed use_whole = (fg, None, bb, failed) \<longrightarrow>
         fst (calc_arcface_align_loss interpolate self ref_images aligned_images T bleed True use_whole)
           = fst (calc_arcface_align_loss interpolate self ref_images aligned_images T bleed False use_whole)
         \<and> (\<forall>la lb bbs. fst (calc_arcface_align_loss interpolate self ref_images aligned_images T bleed True use_whole)
                      = Inr (la, lb, bbs) \<longrightarrow> lb = Val 0))"
proof (intro conjI allI impI)
  show "\<forall>c \<in> set (fst (snd (calc_arcface_align_loss interpolate self ref_images aligned_images T bleed False use_whole))).
       site c = FgFaces"
    using embed_image_tensor_no_bg_sites [of interpolate self ref_images T bleed False False]
      embed_image_tensor_no_bg_sites [of interpolate self aligned_images T bleed use_whole True]
    by (auto simp: calc_arcface_align_loss_calls)
next
  fix la lb bbs
  assume "fst (calc_arcface_align_loss interpolate self ref_images aligned_images T bleed False use_whole) = Inr (la, lb, bbs)"
  then show "lb = Val 0"
    by (rule calc_arcface_align_loss_bg_zero [OF embed_image_tensor_no_bg_emb])
next
  fix fg bb failed
  assume c: "crop_faces self aligned_images (128, 128) T bleed use_whole = (fg, None, bb, failed)"
  show "fst (calc_arcface_align_loss interpolate self ref_images aligned_images T bleed True use_whole)
           = fst (calc_arcface_align_loss interpolate self ref_images aligned_images T bleed False use_whole)"
    by (rule calc_arcface_align_loss_suppress_irrelevant [OF c])
next
  fix fg bb failed la lb bbs
  assume c: "crop_faces self aligned_images (128, 128) T bleed use_whole = (fg, None, bb, failed)"
    and "fst (calc_arcface_align_loss interpolate self ref_images aligned_images T bleed True use_whole) = Inr (la, lb, bbs)"
  then show "lb = Val 0"
    using calc_arcface_align_loss_bg_zero [OF embed_image_tensor_bg_absent_emb [OF c]] by blast
qed

lemma embed_aligned_crowd_no_bg:
  "embed_image_tensor stub_interpolate stub_wrapper [crowd_image] 20 2 False False True
     = ((Some [[3 * 0.299 + 4 * 0.587]], None, Some [(0, 0, 1, 1)], []),
        [ArcfaceCall FgFaces [[[3 * 0.299 + 4 * 0.587]]] True])"
  by (simp add: stub_defs)

lemma embed_aligned_red_no_bg:
  "embed_image_tensor stub_interpolate stub_wrapper [red_image] 20 2 False False True
     = ((Some [[255 * 0.299]], None, Some [(0, 0, 1, 1)], []),
        [ArcfaceCall FgFaces [[[255 * 0.299]]] True])"
  by (simp add: stub_defs)

lemma crop_faces_red:
  "crop_faces stub_wrapper [red_image] (128, 128) 20 2 False = (Some [red_image], None, Some [(0, 0, 1, 1)], [])"
  by (simp add: stub_defs)

lemma crop_faces_crowd:
  "crop_faces stub_wrapper [crowd_image] (128, 128) 20 2 False
     = (Some [crowd_image], Some [crowd_image], Some [(0, 0, 1, 1)], [])"
  by (simp add: stub_defs)

lemma map2_one: "map2 f [a] [c] = [f a c]"
  by simp

lemma calc_red_crowd_no_suppress:
  "calc_arcface_align_loss stub_interpolate stub_wrapper [red_image] [crowd_image] 20 2 False False
     = (Inr (Val 0, Val 0, Some [(0, 0, 1, 1)]),
        [ArcfaceCall FgFaces [[[255 * 0.299]]] False, ArcfaceCall FgFaces [[[3 * 0.299 + 4 * 0.587]]] True],
        [LossArcfaceAlign (Val 0)])"
proof -
  have dt: "dtype stub_wrapper = half_ops" by (simp add: stub_wrapper_def)
  have len: "length [[255 * 0.299 :: real]] = length [[3 * 0.299 + 4 * 0.587 :: real]]" by simp
  have l: "cosine_embedding_loss half_ops [[255 * 0.299]] [[3 * 0.299 + 4 * 0.587]]
             (replicate (length [[255 * 0.299 :: real]]) 1) = Inr (Val 0)"
    unfolding cosine_embedding_loss_ones [OF len]
    by (simp only: map2_one half_pair_loss_red_crowd half_mean_values)
  show ?thesis
    unfolding calc_arcface_align_loss_no_failure [OF embed_ref_red embed_aligned_crowd_no_bg] dt
    using l by (simp add: tile_ref_emb_def bg_faces_suppress_loss_def)
qed

lemma calc_red_red_no_suppress:
  "calc_arcface_align_loss stub_interpolate stub_wrapper [red_image] [red_image] 20 2 False False
     = (Inr (Val 1, Val 0, Some [(0, 0, 1, 1)]),
        [ArcfaceCall FgFaces [[[255 * 0.299]]] False, ArcfaceCall FgFaces [[[255 * 0.299]]] True],
        [LossArcfaceAlign (Val 1)])"
proof -
  have dt: "dtype stub_wrapper = half_ops" by (simp add: stub_wrapper_def)
  have len: "length [[255 * 0.299 :: real]] = length [[255 * 0.299 :: real]]" by simp
  have l: "cosine_embedding_loss half_ops [[255 * 0.299]] [[255 * 0.299]]
             (replicate (length [[255 * 0.299 :: real]]) 1) = Inr (Val 1)"
    unfolding cosine_embedding_loss_ones [OF len]
    by (simp only: map2_one half_pair_loss_red half_mean_values)
  show ?thesis
    unfolding calc_arcface_align_loss_no_failure [OF embed_ref_red embed_aligned_red_no_bg] dt
    using l by (simp add: tile_ref_emb_def bg_faces_suppress_loss_def)
qed

theorem calc_arcface_align_loss_background_witness:
  "crop_faces stub_wrapper [crowd_image] (128, 128) 20 2 False
     = (Some [crowd_image], Some [crowd_image], Some [(0, 0, 1, 1)], [])
   \<and> fst (snd (calc_arcface_align_loss stub_interpolate stub_wrapper [red_image] [crowd_image] 20 2 False False))
     = [ArcfaceCall FgFaces [[[255 * 0.299]]] False, ArcfaceCall FgFaces [[[3 * 0.299 + 4 * 0.587]]] True]
   \<and> fst (calc_arcface_align_loss stub_interpolate stub_wrapper [red_image] [crowd_image] 20 2 False False)
     = Inr (Val 0, Val 0, Some [(0, 0, 1, 1)])
   \<and> crop_faces stub_wrapper [red_image] (128, 128) 20 2 False = (Some [red_image], None, Some [(0, 0, 1, 1)], [])
   \<and> fst (calc_arcface_align_loss stub_interpolate stub_wrapper [red_image] [red_image] 20 2 True False)
     = Inr (Val 1, Val 0, Some [(0, 0, 1, 1)])"
proof -
  have "fst (calc_arcface_align_loss stub_interpolate stub_wrapper [red_image] [red_image] 20 2 True False)
          = fst (calc_arcface_align_loss stub_interpolate stub_wrapper [red_image] [red_image] 20 2 False False)"
    using calc_arcface_align_loss_background [of stub_interpolate stub_wrapper "[red_image]" "[red_image]" 20 2 False]
      crop_faces_red by blast
  then show ?thesis
    by (simp add: calc_red_red_no_suppress calc_red_crowd_no_suppress crop_faces_red crop_faces_crowd)
qed

subsection \<open>Grayscale conversion\<close>

lemma nth_scale_plane:
  "i < length p \<Longrightarrow> j < length (p ! i) \<Longrightarrow> scale_plane w p ! i ! j = p ! i ! j * w"
  by (simp add: scale_plane_def)

lemma length_scale_plane: "length (scale_plane w p) = length p"
  by (simp add: scale_plane_def)

lemma length_scale_plane_row: "i < length p \<Longrightarrow> length (scale_plane w p ! i) = length (p ! i)"
  by (simp add: scale_plane_def)

lemma nth_add_plane:
  "i < length p \<Longrightarrow> i < length q \<Longrightarrow> j < length (p ! i) \<Longrightarrow> j < length (q ! i) \<Longrightarrow>
   add_plane p q ! i ! j = p ! i ! j + q ! i ! j"
  by (simp add: add_plane_def)

lemma length_add_plane: "length (add_plane p q) = min (length p) (length q)"
  by (simp add: add_plane_def)

lemma length_add_plane_row:
  "i < length p \<Longrightarrow> i < length q \<Longrightarrow> length (add_plane p q ! i) = min (length (p ! i)) (length (q ! i))"
  by (simp add: add_plane_def)

lemma weighted_channel_sum_pixel:
  assumes "i < length r" "i < length g" "i < length b"
    and "j < length (r ! i)" "j < length (g ! i)" "j < length (b ! i)"
  shows "weighted_channel_sum (wr, wg, wb) (r, g, b) ! i ! j = r ! i ! j * wr + g ! i ! j * wg + b ! i ! j * wb"
  using assms
  by (simp add: nth_add_plane nth_scale_plane length_add_plane length_add_plane_row
      length_scale_plane length_scale_plane_row)

text \<open>
  C8. When the localizer returns foreground crops, the embedder is run on the crops
  converted to grayscale and then resized with \<open>interpolate\<close> to 128 by 128, bilinear,
  without corner alignment; the background crops, when embedded, go the same way. The gray
  value of a pixel is 0.299 times its red value plus 0.587 times its green value plus
  0.114 times its blue value, so the pixel (255, 0, 0) has gray value 255 times 0.299
  (in real arithmetic).
\<close>

theorem embed_image_tensor_grayscale:
  assumes "crop_faces self images_ts (128, 128) T bleed use_whole = (Some fg, bg, bb, failed)"
  shows "snd (embed_image_tensor interpolate self images_ts T bleed embed_bg use_whole enable_grad)
           = ArcfaceCall FgFaces
               (interpolate (map (weighted_channel_sum (0.299, 0.587, 0.114)) fg) (128, 128) Bilinear False)
               enable_grad
             # (case (if embed_bg then bg else None) of
                  None \<Rightarrow> []
                | Some bg_crops \<Rightarrow>
                    [ArcfaceCall BgFaces
                       (interpolate (map (weighted_channel_sum (0.299, 0.587, 0.114)) bg_crops) (128, 128) Bilinear False)
                       enable_grad])
     \<and> fst (fst (embed_image_tensor interpolate self images_ts T bleed embed_bg use_whole enable_grad))
           = Some (arcface self
               (interpolate (map (weighted_channel_sum (0.299, 0.587, 0.114)) fg) (128, 128) Bilinear False))
     \<and> (\<forall>r g b i j. i < length r \<and> i < length g \<and> i < length b
            \<and> j < length (r ! i) \<and> j < length (g ! i) \<and> j < length (b ! i) \<longrightarrow>
          weighted_channel_sum (0.299, 0.587, 0.114) (r, g, b) ! i ! j
            = r ! i ! j * 0.299 + g ! i ! j * 0.587 + b ! i ! j * 0.114
          \<and> (r ! i ! j = 255 \<and> g ! i ! j = 0 \<and> b ! i ! j = 0 \<longrightarrow>
               weighted_channel_sum (0.299, 0.587, 0.114) (r, g, b) ! i ! j = 255 * 0.299))"
proof (intro conjI allI impI)
  show "snd (embed_image_tensor interpolate self images_ts T bleed embed_bg use_whole enable_grad)
           = ArcfaceCall FgFaces
               (interpolate (map (weighted_channel_sum (0.299, 0.587, 0.114)) fg) (128, 128) Bilinear False)
               enable_grad
             # (case (if embed_bg then bg else None) of
                  None \<Rightarrow> []
                | Some bg_crops \<Rightarrow>
                    [ArcfaceCall BgFaces
                       (interpolate (map (weighted_channel_sum (0.299, 0.587, 0.114)) bg_crops) (128, 128) Bilinear False)
                       enable_grad])"
    using assms
    by (simp add: embed_image_tensor_def faces_gray_def rgb_to_gray_weights_def Let_def split: option.splits)
next
  show "fst (fst (embed_image_tensor interpolate self images_ts T bleed embed_bg use_whole enable_grad))
           = Some (arcface self
               (interpolate (map (weighted_channel_sum (0.299, 0.587, 0.114)) fg) (128, 128) Bilinear False))"
    using assms
    by (simp add: embed_image_tensor_def faces_gray_def rgb_to_gray_weights_def Let_def split: option.splits)
next
  fix r g b :: plane and i j
  assume h: "i < length r \<and> i < length g \<and> i < length b
            \<and> j < length (r ! i) \<and> j < length (g ! i) \<and> j < length (b ! i)"
  then show px: "weighted_channel_sum (0.299, 0.587, 0.114) (r, g, b) ! i ! j
            = r ! i ! j * 0.299 + g ! i ! j * 0.587 + b ! i ! j * 0.114"
    using weighted_channel_sum_pixel [of i r g b j "0.299" "0.587" "0.114"] by blast
  assume "r ! i ! j = 255 \<and> g ! i ! j = 0 \<and> b ! i ! j = 0"
  with px show "weighted_channel_sum (0.299, 0.587, 0.114) (r, g, b) ! i ! j = 255 * 0.299"
    by simp
qed

lemma crop_faces_red_crowd:
  "crop_faces stub_wrapper [red_image, crowd_image] (128, 128) 20 0 False
     = (Some [red_image, crowd_image], Some [crowd_image], Some [(0, 0, 1, 1), (0, 0, 1, 1)], [])"
  by (simp add: stub_defs)

theorem embed_image_tensor_grayscale_witness:
  "snd (embed_image_tensor stub_interpolate stub_wrapper [red_image, crowd_image] 20 0 True False True)
     = [ArcfaceCall FgFaces [[[255 * 0.299]], [[3 * 0.299 + 4 * 0.587]]] True,
        ArcfaceCall BgFaces [[[3 * 0.299 + 4 * 0.587]]] True]
   \<and> weighted_channel_sum (0.299, 0.587, 0.114) red_image ! 0 ! 0 = 255 * 0.299"
proof -
  note t = embed_image_tensor_grayscale [OF crop_faces_red_crowd, of stub_interpolate True True]
  have px: "weighted_channel_sum (0.299, 0.587, 0.114) ([[255]], [[0]], [[0]]) ! 0 ! 0 = 255 * 0.299"
    using t [THEN conjunct2, THEN conjunct2, rule_format, of 0 "[[255]]" "[[0]]" "[[0]]" 0, THEN conjunct2]
    by simp
  show ?thesis
    using t [THEN conjunct1] px
    by (simp add: stub_interpolate_def red_image_def crowd_image_def scale_plane_def add_plane_def)
qed

subsection \<open>Size of the foreground embedding batch\<close>

text \<open>
  C4 (as amended). Whenever the localizer returns foreground crops, one per instance that
  did not fail, and the embedder and the resize keep the batch length, the foreground
  embedding batch returned by \<open>embed_image_tensor\<close> has batch size minus number of
  failed instances rows, hence as many rows as the input batch when no instance failed.
  When the localizer returns no crops at all, the function returns None in place of the
  embedding batch, not a batch without rows.
\<close>

theorem embed_image_tensor_batch_size:
  assumes "crop_faces self images_ts (128, 128) T bleed use_whole = (Some fg, bg, bb, failed)"
    and "length fg = length images_ts - length failed"
    and "\<forall>x. length (arcface self x) = length x"
    and "\<forall>x out_size m align_corners. length (interpolate x out_size m align_corners) = length x"
  shows "map_option length (fst (fst (embed_image_tensor interpolate self images_ts T bleed embed_bg use_whole enable_grad)))
           = Some (length images_ts - length failed)
     \<and> (failed = [] \<longrightarrow>
          map_option length (fst (fst (embed_image_tensor interpolate self images_ts T bleed embed_bg use_whole enable_grad)))
            = Some (length images_ts))"
  using assms
  by (simp add: embed_image_tensor_def faces_gray_def Let_def split: option.splits)

lemma crop_faces_red_dark_crowd:
  "crop_faces stub_wrapper [red_image, dark_image, crowd_image] (128, 128) 20 0 False
     = (Some [red_image, crowd_image], Some [crowd_image], Some [(0, 0, 1, 1), (0, 0, 1, 1)], [1])"
  by (simp add: stub_defs)

lemma length_stub_arcface: "\<forall>x. length (arcface stub_wrapper x) = length x"
  by (simp add: stub_wrapper_def stub_arcface_def)

lemma length_stub_interpolate:
  "\<forall>x out_size m align_corners. length (stub_interpolate x out_size m align_corners) = length x"
  by (simp add: stub_interpolate_def)

theorem embed_image_tensor_batch_size_witness:
  "crop_faces stub_wrapper [red_image, dark_image, crowd_image] (128, 128) 20 0 False
     = (Some [red_image, crowd_image], Some [crowd_image], Some [(0, 0, 1, 1), (0, 0, 1, 1)], [1])
   \<and> map_option length
        (fst (fst (embed_image_tensor stub_interpolate stub_wrapper [red_image, dark_image, crowd_image] 20 0 True False True)))
     = Some 2"
proof -
  have len: "length [red_image, crowd_image] = length [red_image, dark_image, crowd_image] - length [1::nat]"
    by simp
  show ?thesis
    using embed_image_tensor_batch_size [OF crop_faces_red_dark_crowd len length_stub_arcface
        length_stub_interpolate, of True True]
    by (simp add: crop_faces_red_dark_crowd numeral_2_eq_2)
qed

text \<open>
  A batch of one image in which no face is found: the batch size minus the number of
  failed instances is 0, and the function returns None, not an embedding batch of length 0.
\<close>

theorem embed_image_tensor_batch_size_counterexample:
  "crop_faces stub_wrapper [dark_image] (128, 128) 20 0 False = (None, None, None, [0])
   \<and> length [dark_image] - length [0::nat] = 0
   \<and> fst (fst (embed_image_tensor stub_interpolate stub_wrapper [dark_image] 20 0 True False True)) = None
   \<and> fst (fst (embed_image_tensor stub_interpolate stub_wrapper [dark_image] 20 0 True False True)) \<noteq> Some []"
  by (simp add: stub_defs)

subsection \<open>Renaming of the checkpoint keys\<close>

lemma new_key_of_prefix: "new_key_of (''module.'' @ rest) = new_key_of rest"
  unfolding new_key_of_def by (subst str_replace.simps) simp

lemma take_eq_imp_sublist: "take (length old) s = old \<Longrightarrow> sublist old s"
  by (metis prefix_imp_sublist take_is_prefix)

lemma str_replace_unchanged:
  "old \<noteq> [] \<Longrightarrow> \<not> sublist old s \<Longrightarrow> str_replace old new s = s"
proof (induction s)
  case Nil
  then show ?case by (simp add: str_replace.simps [of old new "[]"])
next
  case (Cons c cs)
  have "\<not> sublist old cs" using Cons.prems(2) by (auto simp: sublist_Cons_right)
  then have ih: "str_replace old new cs = cs" using Cons.IH Cons.prems(1) by simp
  have "take (length old) (c # cs) \<noteq> old"
    using Cons.prems(2) take_eq_imp_sublist by blast
  then show ?case
    using Cons.prems(1) ih by (simp add: str_replace.simps [of old new "c # cs"])
qed

lemma new_key_of_unchanged: "\<not> sublist ''module.'' key \<Longrightarrow> new_key_of key = key"
  by (simp add: new_key_of_def str_replace_unchanged)

lemma new_key_of_Nil: "new_key_of [] = []"
  by (simp add: new_key_of_def str_replace.simps [of "''module.''" "[]" "[]"])

lemma str_replace_Cons:
  "old \<noteq> [] \<Longrightarrow> \<not> prefix old (c # cs) \<Longrightarrow>
   str_replace old new (c # cs) = c # str_replace old new cs"
proof -
  assume o: "old \<noteq> []" and "\<not> prefix old (c # cs)"
  then have "take (length old) (c # cs) \<noteq> old"
    by (metis take_is_prefix)
  then show ?thesis
    using o by (subst str_replace.simps) simp
qed

lemma new_key_of_Cons:
  "\<not> prefix ''module.'' (c # cs) \<Longrightarrow> new_key_of (c # cs) = c # new_key_of cs"
  unfolding new_key_of_def by (rule str_replace_Cons) simp_all

lemma prefix_append_long:
  "length p \<le> length pre \<Longrightarrow> prefix p (pre @ ys) \<Longrightarrow> prefix p pre"
  by (auto simp: prefix_append)

lemma module_dot_last: "k < 6 \<Longrightarrow> ''module.'' ! k \<noteq> CHR ''.''"
  by (auto simp: numeral_eq_Suc less_Suc_eq)

lemma no_straddling_occurrence:
  assumes "pre \<noteq> []" and "\<not> sublist ''module.'' pre"
  shows "\<not> prefix ''module.'' (pre @ ''module.'' @ rest)"
proof
  assume p: "prefix ''module.'' (pre @ ''module.'' @ rest)"
  show False
  proof (cases "7 \<le> length pre")
    case True
    then have "length ''module.'' \<le> length pre" by simp
    then have "prefix ''module.'' pre"
      using p by (rule prefix_append_long)
    then show False using assms(2) by (simp add: prefix_imp_sublist)
  next
    case False
    let ?n = "length pre"
    have n: "0 < ?n" "?n \<le> 6" using assms(1) False by auto
    from p obtain zs where zs: "pre @ ''module.'' @ rest = ''module.'' @ zs"
      by (auto simp: prefix_def)
    have "(pre @ ''module.'' @ rest) ! 6 = (''module.'' @ rest) ! (6 - ?n)"
      using n by (simp add: nth_append)
    also have "\<dots> = ''module.'' ! (6 - ?n)"
    proof -
      have "6 - ?n < length ''module.''" by simp
      then show ?thesis by (simp only: nth_append if_True)
    qed
    finally have l: "(pre @ ''module.'' @ rest) ! 6 = ''module.'' ! (6 - ?n)" .
    have "(''module.'' @ zs) ! 6 = CHR ''.''" by (simp add: nth_append)
    with zs l have "''module.'' ! (6 - ?n) = CHR ''.''" by simp
    moreover have "6 - ?n < 6" using n by simp
    ultimately show False using module_dot_last by blast
  qed
qed

lemma new_key_of_inner:
  "\<not> sublist ''module.'' pre \<Longrightarrow> new_key_of (pre @ ''module.'' @ rest) = pre @ new_key_of rest"
proof (induction pre)
  case Nil
  then show ?case using new_key_of_prefix [of rest] by simp
next
  case (Cons c cs)
  have "\<not> sublist ''module.'' cs" using Cons.prems by (auto simp: sublist_Cons_right)
  then have ih: "new_key_of (cs @ ''module.'' @ rest) = cs @ new_key_of rest" by (rule Cons.IH)
  have "\<not> prefix ''module.'' ((c # cs) @ ''module.'' @ rest)"
    by (rule no_straddling_occurrence [OF _ Cons.prems]) simp
  then have "new_key_of (c # (cs @ ''module.'' @ rest)) = c # new_key_of (cs @ ''module.'' @ rest)"
    using new_key_of_Cons [of c "cs @ ''module.'' @ rest"] by simp
  then show ?case using ih by simp
qed

lemma rename_key_map_of:
  assumes "map_of d key = Some v"
  shows "rename_key key d = Inr (AList.update (new_key_of key) v (AList.delete key d))"
    and "map_of (AList.update (new_key_of key) v (AList.delete key d))
           = ((map_of d)(key := None))(new_key_of key \<mapsto> v)"
  using assms by (simp_all add: rename_key_def update_conv' delete_conv')

lemma rename_keys_distinct:
  "rename_keys ks d = Inr d' \<Longrightarrow> distinct (map fst d) \<Longrightarrow> distinct (map fst d')"
proof (induction ks arbitrary: d)
  case Nil
  then show ?case by simp
next
  case (Cons k ks)
  then show ?case
    by (auto simp: rename_key_def distinct_update distinct_delete split: option.splits sum.splits)
qed

lemma rename_keys_map:
  assumes "distinct ks" and "set ks \<subseteq> dom (map_of d)"
    and "\<forall>k \<in> set ks. \<forall>x \<in> dom (map_of d). x \<noteq> k \<longrightarrow> new_key_of k \<noteq> x"
    and "inj_on new_key_of (set ks)"
  shows "\<exists>d'. rename_keys ks d = Inr d'
     \<and> (\<forall>k \<in> set ks. map_of d' (new_key_of k) = map_of d k)
     \<and> (\<forall>x. x \<notin> set ks \<and> x \<notin> new_key_of ` set ks \<longrightarrow> map_of d' x = map_of d x)
     \<and> (\<forall>x \<in> set ks. x \<notin> new_key_of ` set ks \<longrightarrow> map_of d' x = None)"
  using assms
proof (induction ks arbitrary: d)
  case Nil
  then show ?case by simp
next
  case (Cons k ks)
  let ?m = "map_of d"
  from Cons.prems(2) obtain v where v: "?m k = Some v" by auto
  let ?d1 = "AList.update (new_key_of k) v (AList.delete k d)"
  let ?m1 = "(?m(k := None))(new_key_of k \<mapsto> v)"
  have step: "rename_key k d = Inr ?d1" and m1: "map_of ?d1 = ?m1"
    using rename_key_map_of [OF v] by simp_all
  have knot: "k \<notin> set ks" and dist: "distinct ks" using Cons.prems(1) by simp_all
  have nk_fresh: "new_key_of k \<noteq> k'" if "k' \<in> set ks" for k'
  proof -
    have "k' \<in> dom ?m" using that Cons.prems(2) by auto
    moreover have "k' \<noteq> k" using that knot by auto
    ultimately show ?thesis using Cons.prems(3) by auto
  qed
  have nk_inj: "new_key_of k' \<noteq> new_key_of k" if "k' \<in> set ks" for k'
    using that knot Cons.prems(4) by (auto simp: inj_on_def)
  have p2: "set ks \<subseteq> dom (map_of ?d1)"
    using Cons.prems(2) knot by (auto simp: m1)
  have p3: "\<forall>k' \<in> set ks. \<forall>x \<in> dom (map_of ?d1). x \<noteq> k' \<longrightarrow> new_key_of k' \<noteq> x"
  proof (intro ballI impI)
    fix k' x
    assume k': "k' \<in> set ks" and x: "x \<in> dom (map_of ?d1)" and ne: "x \<noteq> k'"
    show "new_key_of k' \<noteq> x"
    proof (cases "x = new_key_of k")
      case True
      then show ?thesis using nk_inj [OF k'] by simp
    next
      case False
      then have "x \<in> dom ?m" using x by (auto simp: m1 split: if_splits)
      then show ?thesis using Cons.prems(3) k' ne by auto
    qed
  qed
  have p4: "inj_on new_key_of (set ks)"
    using Cons.prems(4) by (auto simp: inj_on_def)
  from Cons.IH [OF dist p2 p3 p4] obtain d' where
    run: "rename_keys ks ?d1 = Inr d'"
    and a: "\<forall>k' \<in> set ks. map_of d' (new_key_of k') = map_of ?d1 k'"
    and b: "\<forall>x. x \<notin> set ks \<and> x \<notin> new_key_of ` set ks \<longrightarrow> map_of d' x = map_of ?d1 x"
    and c: "\<forall>x \<in> set ks. x \<notin> new_key_of ` set ks \<longrightarrow> map_of d' x = None"
    by blast
  have r: "rename_keys (k # ks) d = Inr d'" using step run by simp
  have A: "\<forall>k' \<in> set (k # ks). map_of d' (new_key_of k') = ?m k'"
  proof
    fix k'
    assume "k' \<in> set (k # ks)"
    then consider "k' = k" | "k' \<in> set ks" by auto
    then show "map_of d' (new_key_of k') = ?m k'"
    proof cases
      case 1
      have "new_key_of k \<notin> set ks" using nk_fresh by auto
      moreover have "new_key_of k \<notin> new_key_of ` set ks" using nk_inj by force
      ultimately have "map_of d' (new_key_of k) = map_of ?d1 (new_key_of k)" using b by blast
      then show ?thesis using 1 v by (simp add: m1)
    next
      case 2
      then have "map_of d' (new_key_of k') = map_of ?d1 k'" using a by blast
      moreover have "k' \<noteq> k" using 2 knot by auto
      moreover have "k' \<noteq> new_key_of k" using nk_fresh [OF 2] by simp
      ultimately show ?thesis by (simp add: m1)
    qed
  qed
  have B: "\<forall>x. x \<notin> set (k # ks) \<and> x \<notin> new_key_of ` set (k # ks) \<longrightarrow> map_of d' x = ?m x"
  proof (intro allI impI)
    fix x
    assume x: "x \<notin> set (k # ks) \<and> x \<notin> new_key_of ` set (k # ks)"
    then have "map_of d' x = map_of ?d1 x" using b by auto
    then show "map_of d' x = ?m x" using x by (simp add: m1)
  qed
  have C: "\<forall>x \<in> set (k # ks). x \<notin> new_key_of ` set (k # ks) \<longrightarrow> map_of d' x = None"
  proof (intro ballI impI)
    fix x
    assume x: "x \<in> set (k # ks)" and nx: "x \<notin> new_key_of ` set (k # ks)"
    from x consider "x = k" | "x \<in> set ks" by auto
    then show "map_of d' x = None"
    proof cases
      case 1
      then have "x \<notin> set ks" using knot by simp
      moreover have "x \<notin> new_key_of ` set ks" using nx by auto
      ultimately have "map_of d' x = map_of ?d1 x" using b by blast
      moreover have "x \<noteq> new_key_of k" using nx by auto
      ultimately show ?thesis using 1 by (simp add: m1)
    next
      case 2
      then show ?thesis using c nx by auto
    qed
  qed
  from r A B C show ?case by blast
qed

lemma dom_after_rename:
  assumes a: "\<forall>k \<in> K. m' (f k) = m k"
    and b: "\<forall>x. x \<notin> K \<and> x \<notin> f ` K \<longrightarrow> m' x = m x"
    and c: "\<forall>x \<in> K. x \<notin> f ` K \<longrightarrow> m' x = None"
    and d: "dom m = K"
  shows "dom m' = f ` K"
proof (rule set_eqI)
  fix x
  show "x \<in> dom m' \<longleftrightarrow> x \<in> f ` K"
  proof (cases "x \<in> f ` K")
    case True
    then obtain k where k: "k \<in> K" and x: "x = f k" by blast
    have "m' (f k) = m k" using a k by (rule bspec)
    moreover have "m k \<noteq> None" using k d by (metis domIff)
    ultimately have "m' x \<noteq> None" using x by simp
    with True show ?thesis by (simp add: domIff)
  next
    case False
    have "m' x = None"
    proof (cases "x \<in> K")
      case True
      with c False show ?thesis by simp
    next
      case nin: False
      have "m' x = m x" using b nin False by simp
      moreover have "m x = None" using nin d by (metis domIff)
      ultimately show ?thesis by simp
    qed
    with False show ?thesis by (simp add: domIff)
  qed
qed

text \<open>
  C9 (as amended). The renaming loop replaces \<open>module.\<close> by the empty string wherever
  it occurs in a key, scanning from the left, not only at the start: the empty key stays
  empty, a key that starts with \<open>module.\<close> is renamed as its remainder is, a key that
  does not start with it keeps its first character and is renamed as its tail is; so
  a key \<open>pre\<close> \<open>module.\<close> \<open>rest\<close> whose part \<open>pre\<close> does not contain \<open>module.\<close>
  becomes \<open>pre\<close> followed by the renamed \<open>rest\<close>, and a key that does not contain
  \<open>module.\<close> anywhere is left unchanged. When no renamed key coincides with another key
  of the checkpoint or with another renamed key, the loop raises nothing and the mapping
  afterwards contains exactly the renamed keys, each with the tensor of the key it came
  from.
\<close>

theorem rename_ckpt_keys_removes_module:
  assumes "distinct (map fst d)"
    and "\<forall>k1 \<in> fst ` set d. \<forall>k2 \<in> fst ` set d.
           k1 \<noteq> k2 \<longrightarrow> new_key_of k1 \<noteq> k2 \<and> new_key_of k1 \<noteq> new_key_of k2"
  shows "(\<exists>d'. rename_ckpt_keys d = Inr d'
            \<and> distinct (map fst d')
            \<and> fst ` set d' = new_key_of ` fst ` set d
            \<and> (\<forall>(k, v) \<in> set d. map_of d' (new_key_of k) = Some v))
     \<and> (\<forall>rest. new_key_of (''module.'' @ rest) = new_key_of rest)
     \<and> (\<forall>key. \<not> sublist ''module.'' key \<longrightarrow> new_key_of key = key)
     \<and> new_key_of [] = []
     \<and> (\<forall>c cs. \<not> prefix ''module.'' (c # cs) \<longrightarrow> new_key_of (c # cs) = c # new_key_of cs)
     \<and> (\<forall>pre rest. \<not> sublist ''module.'' pre \<longrightarrow>
           new_key_of (pre @ ''module.'' @ rest) = pre @ new_key_of rest)"
proof -
  let ?ks = "map fst d"
  have p2: "set ?ks \<subseteq> dom (map_of d)" by (simp add: dom_map_of_conv_image_fst)
  have p3: "\<forall>k \<in> set ?ks. \<forall>x \<in> dom (map_of d). x \<noteq> k \<longrightarrow> new_key_of k \<noteq> x"
    using assms(2) by (auto simp: dom_map_of_conv_image_fst)
  have p4: "inj_on new_key_of (set ?ks)"
    using assms(2) by (auto simp: inj_on_def)
  from rename_keys_map [OF assms(1) p2 p3 p4] obtain d' where
    run: "rename_keys ?ks d = Inr d'"
    and a: "\<forall>k \<in> set ?ks. map_of d' (new_key_of k) = map_of d k"
    and b: "\<forall>x. x \<notin> set ?ks \<and> x \<notin> new_key_of ` set ?ks \<longrightarrow> map_of d' x = map_of d x"
    and c: "\<forall>x \<in> set ?ks. x \<notin> new_key_of ` set ?ks \<longrightarrow> map_of d' x = None"
    by blast
  have r: "rename_ckpt_keys d = Inr d'" using run by (simp add: rename_ckpt_keys_def)
  have dist: "distinct (map fst d')" using rename_keys_distinct [OF run assms(1)] .
  have vals: "\<forall>(k, v) \<in> set d. map_of d' (new_key_of k) = Some v"
  proof (clarify)
    fix k v
    assume kv: "(k, v) \<in> set d"
    then have mk: "map_of d k = Some v" using assms(1) by simp
    have "k \<in> set ?ks" using kv by force
    then have "map_of d' (new_key_of k) = map_of d k" by (rule a [rule_format])
    then show "map_of d' (new_key_of k) = Some v" using mk by simp
  qed
  have "dom (map_of d') = new_key_of ` set ?ks"
    by (rule dom_after_rename [OF a b c]) (simp add: dom_map_of_conv_image_fst)
  then have keys: "fst ` set d' = new_key_of ` fst ` set d"
    by (simp add: dom_map_of_conv_image_fst)
  have "\<exists>d'. rename_ckpt_keys d = Inr d'
            \<and> distinct (map fst d')
            \<and> fst ` set d' = new_key_of ` fst ` set d
            \<and> (\<forall>(k, v) \<in> set d. map_of d' (new_key_of k) = Some v)"
    using r dist keys vals by (intro exI [of _ d'] conjI)
  moreover have "\<forall>rest. new_key_of (''module.'' @ rest) = new_key_of rest"
    using new_key_of_prefix by (intro allI)
  moreover have "\<forall>key. \<not> sublist ''module.'' key \<longrightarrow> new_key_of key = key"
    using new_key_of_unchanged by (intro allI impI)
  moreover have "new_key_of [] = []"
    by (rule new_key_of_Nil)
  moreover have "\<forall>c cs. \<not> prefix ''module.'' (c # cs) \<longrightarrow> new_key_of (c # cs) = c # new_key_of cs"
    using new_key_of_Cons by (intro allI impI)
  moreover have "\<forall>pre rest. \<not> sublist ''module.'' pre \<longrightarrow>
           new_key_of (pre @ ''module.'' @ rest) = pre @ new_key_of rest"
    using new_key_of_inner by (intro allI impI)
  ultimately show ?thesis by (intro conjI)
qed

theorem rename_ckpt_keys_removes_module_witness:
  "rename_ckpt_keys [(''module.conv1.weight'', 1::nat), (''fc.bias'', 2), (''encoder.module.layer'', 3)]
     = Inr [(''conv1.weight'', 1), (''fc.bias'', 2), (''encoder.layer'', 3)]
   \<and> new_key_of (''encoder.'' @ ''module.'' @ ''layer'') = ''encoder.'' @ new_key_of ''layer''
   \<and> new_key_of ''layer'' = ''layer''"
proof -
  let ?d = "[(''module.conv1.weight'', 1::nat), (''fc.bias'', 2), (''encoder.module.layer'', 3)]"
  have n1: "new_key_of ''module.conv1.weight'' = ''conv1.weight''"
    and n2: "new_key_of ''fc.bias'' = ''fc.bias''"
    and n3: "new_key_of ''encoder.module.layer'' = ''encoder.layer''"
    by (simp_all add: new_key_of_def str_replace.simps)
  have h1: "distinct (map fst ?d)" by simp
  have h2: "\<forall>k1 \<in> fst ` set ?d. \<forall>k2 \<in> fst ` set ?d.
           k1 \<noteq> k2 \<longrightarrow> new_key_of k1 \<noteq> k2 \<and> new_key_of k1 \<noteq> new_key_of k2"
    by (simp add: n1 n2 n3)
  note inst = rename_ckpt_keys_removes_module [OF h1 h2]
  from inst obtain d' where
    "rename_ckpt_keys ?d = Inr d'" by blast
  moreover have "rename_ckpt_keys ?d = Inr [(''conv1.weight'', 1), (''fc.bias'', 2), (''encoder.layer'', 3)]"
    by (simp add: rename_ckpt_keys_def rename_key_def n1 n2 n3)
  ultimately have first: "rename_ckpt_keys ?d
      = Inr [(''conv1.weight'', 1), (''fc.bias'', 2), (''encoder.layer'', 3)]" by simp
  have s1: "\<not> sublist ''module.'' ''encoder.''"
    by (simp add: sublist_Cons_right)
  have s2: "\<not> sublist ''module.'' ''layer''"
    by (simp add: sublist_Cons_right)
  have second: "new_key_of (''encoder.'' @ ''module.'' @ ''layer'') = ''encoder.'' @ new_key_of ''layer''"
    using inst s1 by blast
  have third: "new_key_of ''layer'' = ''layer''"
    using inst s2 by blast
  from first second third show ?thesis by (intro conjI)
qed

text \<open>
  A key without the prefix that is changed all the same: \<open>submodule.weight\<close> contains
  \<open>module.\<close> in the middle and becomes \<open>subweight\<close>.
\<close>

theorem rename_ckpt_keys_counterexample:
  "\<not> prefix ''module.'' ''submodule.weight''
   \<and> rename_ckpt_keys [(''submodule.weight'', 1::nat)] = Inr [(''subweight'', 1)]
   \<and> ''subweight'' \<noteq> ''submodule.weight''"
  by (simp add: rename_ckpt_keys_def rename_key_def new_key_of_def str_replace.simps)

text \<open>When two keys are renamed to the same key, one tensor is lost.\<close>

lemma rename_ckpt_keys_collision:
  "rename_ckpt_keys [(''module.w'', 1::nat), (''w'', 2)] = Inr [(''w'', 1)]"
  by (simp add: rename_ckpt_keys_def rename_key_def new_key_of_def str_replace.simps)

text \<open>
  The scan is a single pass: the key \<open>modmodule.ule.\<close> loses its one occurrence and is
  renamed to \<open>module.\<close>.
\<close>

lemma rename_ckpt_keys_single_pass:
  "new_key_of ''modmodule.ule.'' = ''module.''"
  by (simp add: new_key_of_def str_replace.simps)

subsection \<open>The flow argument of backward\_warp\_by\_flow\<close>

text \<open>
  C10. \<open>backward_warp_by_flow\<close> leaves every array of the caller's store as it was, the
  flow field among them: the store before the call is a prefix of the store after it,
  whatever the call returns or raises. The coordinate grid is added to a copy at a new
  address.
\<close>

theorem backward_warp_by_flow_frame:
  "take (length s) (snd (backward_warp_by_flow remap s image2 flow1to2)) = s
   \<and> (flow1to2 < length s \<longrightarrow>
        snd (backward_warp_by_flow remap s image2 flow1to2) ! flow1to2 = s ! flow1to2)"
  by (auto simp: backward_warp_by_flow_def alloc_def Let_def nth_append split: prod.splits sum.splits)

lemma backward_warp_by_flow_example:
  "backward_warp_by_flow stub_remap [img22, flow22] 0 1 =
     (Inr 3, [img22, flow22, \<lparr>shape = (2, 2, 2), entries = [0, 0, 1, 0, 0, 1, 1, 1]\<rparr>, img22])"
  by (simp add: backward_warp_by_flow_def alloc_def Let_def img22_def flow22_def iadd_arange_def
      stub_remap_def enumerate_eq_zip upt_rec)

theorem backward_warp_by_flow_frame_witness:
  "(1::nat) < length [img22, flow22]
   \<and> snd (backward_warp_by_flow stub_remap [img22, flow22] 0 1) ! 1 = flow22
   \<and> snd (backward_warp_by_flow stub_remap [img22, flow22] 0 1) ! 2
        = \<lparr>shape = (2, 2, 2), entries = [0, 0, 1, 0, 0, 1, 1, 1]\<rparr>"
  using backward_warp_by_flow_frame [of "[img22, flow22]" stub_remap 0 1]
  unfolding backward_warp_by_flow_example by simp

end
